theory Spec2Isabelle
  imports Main "HOL-Library.Word"
begin

section \<open>JavaScript values, properties and the object heap\<close>

text \<open>
  The repository code under study is \<open>DocumentRepository\<close> (create, update, find, delete,
  prove, proveManyDocumentsFromDifferentContracts) and \<open>DriveClient.request\<close>.
  Both work on plain JavaScript values. A value is a tree; an object keeps its own
  properties in insertion order, as \<open>Object.keys\<close> enumerates them. Numbers are
  integers here (limits, epochs, fees and status codes); \<open>NaN\<close> and fractions do not occur.
  Strings are lists of characters; the prefixes that the code tests are ASCII, so that
  \<open>startsWith\<close> and \<open>substring\<close> agree with \<open>take\<close> and \<open>drop\<close>.
\<close>

type_synonym byte = "8 word"
type_synonym buffer = "byte list"

datatype jsval =
    JUndefined
  | JNull
  | JBool bool
  | JNum int
  | JStr string
  | JBuf buffer
  | JArr "jsval list"
  | JObj "(string \<times> jsval) list"

text \<open>Truthiness, as \<open>Boolean(v)\<close>, \<open>if (v)\<close>, \<open>a && b\<close> and \<open>a || b\<close> use it.\<close>

fun truthy :: "jsval \<Rightarrow> bool" where
  "truthy JUndefined = False"
| "truthy JNull = False"
| "truthy (JBool b) = b"
| "truthy (JNum n) = (n \<noteq> 0)"
| "truthy (JStr s) = (s \<noteq> [])"
| "truthy (JBuf b) = True"
| "truthy (JArr xs) = True"
| "truthy (JObj kvs) = True"

text \<open>\<open>a || b\<close>\<close>

definition js_or :: "jsval \<Rightarrow> jsval \<Rightarrow> jsval" where
  "js_or a b = (if truthy a then a else b)"

text \<open>The decimal spelling of an index, the property key of a Buffer element.\<close>

fun string_of_nat :: "nat \<Rightarrow> string" where
  "string_of_nat n =
     (if n < 10 then [char_of (48 + n)]
      else string_of_nat (n div 10) @ [char_of (48 + n mod 10)])"

declare string_of_nat.simps [simp del]

text \<open>
  \<open>Object.keys(v)\<close>: the own enumerable property names; a Buffer has its indices.
\<close>

fun object_keys :: "jsval \<Rightarrow> string list" where
  "object_keys (JObj kvs) = map fst kvs"
| "object_keys (JBuf b) = map string_of_nat [0..<length b]"
| "object_keys (JArr xs) = map string_of_nat [0..<length xs]"
| "object_keys v = []"

text \<open>
  \<open>v[k]\<close> and \<open>v.k\<close> for a value that is neither \<open>undefined\<close> nor \<open>null\<close>
  (the callers below guard those two, or fail with a TypeError): a missing property
  reads as \<open>undefined\<close>. None of the names read in this code is inherited from a prototype.
\<close>

fun get_prop :: "jsval \<Rightarrow> string \<Rightarrow> jsval" where
  "get_prop (JObj kvs) k = (case map_of kvs k of Some v \<Rightarrow> v | None \<Rightarrow> JUndefined)"
| "get_prop (JBuf b) k =
     (case List.find (\<lambda>i. string_of_nat i = k) [0..<length b] of
        Some i \<Rightarrow> JNum (uint (b ! i)) | None \<Rightarrow> JUndefined)"
| "get_prop (JArr xs) k =
     (case List.find (\<lambda>i. string_of_nat i = k) [0..<length xs] of
        Some i \<Rightarrow> xs ! i | None \<Rightarrow> JUndefined)"
| "get_prop v k = JUndefined"

text \<open>\<open>delete v[k]\<close> on a plain object; nothing else is ever deleted from here.\<close>

fun delete_prop :: "string \<Rightarrow> jsval \<Rightarrow> jsval" where
  "delete_prop k (JObj kvs) = JObj (filter (\<lambda>kv. fst kv \<noteq> k) kvs)"
| "delete_prop k v = v"

text \<open>
  \<open>typeof query === 'object' && !Array.isArray(query) && query !== null\<close>:
  true of plain objects and of Buffers.
\<close>

fun is_non_array_object :: "jsval \<Rightarrow> bool" where
  "is_non_array_object (JObj kvs) = True"
| "is_non_array_object (JBuf b) = True"
| "is_non_array_object v = False"

subsection \<open>The heap\<close>

text \<open>
  Objects have identity: the caller of \<open>find\<close> keeps a reference to the options object
  it passed. The heap is the list of allocated cells, a cell holding the tree of one
  top level object; an argument is either a primitive passed by value or a reference.
  What is nested in an object belongs to its cell and is shared with no other cell, so
  that copying a cell copies all of it. The code below mutates top level properties only.
\<close>

type_synonym addr = nat
type_synonym heap = "jsval list"

datatype jsarg = Prim jsval | Ref addr

fun load :: "heap \<Rightarrow> jsarg \<Rightarrow> jsval" where
  "load h (Prim v) = v"
| "load h (Ref a) = (if a < length h then h ! a else JUndefined)"

text \<open>In-place mutation of what the argument designates.\<close>

fun modify :: "(jsval \<Rightarrow> jsval) \<Rightarrow> heap \<times> jsarg \<Rightarrow> heap \<times> jsarg" where
  "modify f (h, Prim v) = (h, Prim (f v))"
| "modify f (h, Ref a) = (if a < length h then h[a := f (h ! a)] else h, Ref a)"

text \<open>A parameter default \<open>options = {}\<close>: a fresh empty object replaces \<open>undefined\<close>.\<close>

fun default_empty_object :: "heap \<Rightarrow> jsarg \<Rightarrow> heap \<times> jsarg" where
  "default_empty_object h (Prim JUndefined) = (h @ [JObj []], Ref (length h))"
| "default_empty_object h x = (h, x)"

text \<open>
  \<open>lodashCloneDeep\<close>: a primitive is returned as it is; an object is copied, with
  everything below it, into a fresh cell.
\<close>

fun lodashCloneDeep :: "heap \<Rightarrow> jsarg \<Rightarrow> heap \<times> jsarg" where
  "lodashCloneDeep h (Prim v) = (h, Prim v)"
| "lodashCloneDeep h (Ref a) = (h @ [load h (Ref a)], Ref (length h))"

section \<open>Errors and results\<close>

datatype error =
    BackendError (message: string) (detail: jsval)
  | InvalidQueryError (message: string)
  | TypeError (message: string)

text \<open>
  The fee signal of the store and \<open>new PreCalculatedOperation(storageFee, processingFee,
  feeRefunds)\<close>, the fee operation of a StorageResult.
\<close>

record feeResult =
  storageFee :: int
  processingFee :: int
  feeRefunds :: "jsval list"

datatype preCalculatedOperation = PreCalculatedOperation int int "jsval list"

record 'v storageResult =
  resultValue :: 'v
  operations :: "preCalculatedOperation list"

text \<open>\<open>s.startsWith(p)\<close> and \<open>s.substring(start, end)\<close>\<close>

definition startsWith :: "string \<Rightarrow> string \<Rightarrow> bool" where
  "startsWith s p = (take (length p) s = p)"

definition substring :: "string \<Rightarrow> nat \<Rightarrow> nat \<Rightarrow> string" where
  "substring s start stop =
     (let a = min start (length s); b = min stop (length s)
      in take (max a b - min a b) (drop (min a b) s))"

section \<open>DocumentRepository.find\<close>

text \<open>The loop that removes undefined options before the query goes to the store.\<close>

definition remove_undefined :: "jsval \<Rightarrow> jsval" where
  "remove_undefined query =
     fold (\<lambda>queryOption q. if get_prop q queryOption = JUndefined
                            then delete_prop queryOption q else q)
          (object_keys query) query"

text \<open>
  What \<open>find\<close> does before it calls the store: the heap afterwards, and the
  \<open>epochIndex\<close>, \<open>query\<close> and \<open>useTransaction\<close> arguments of \<open>queryDocuments\<close>.
\<close>

definition find_prepare :: "heap \<Rightarrow> jsarg \<Rightarrow> heap \<times> jsval \<times> jsval \<times> jsval" where
  "find_prepare h0 optionsArg =
     (let (h1, options) = default_empty_object h0 optionsArg;
          (h2, query) = lodashCloneDeep h1 options;
          (useTransaction, (h3, query')) =
            (if is_non_array_object (load h2 query)
             then (get_prop (load h2 query) ''useTransaction'',
                   modify remove_undefined
                    (modify (delete_prop ''blockInfo'')
                      (modify (delete_prop ''dryRun'')
                        (modify (delete_prop ''useTransaction'') (h2, query)))))
             else (JBool False, (h2, query)));
          epochIndex =
            (if truthy (load h3 options) \<and> truthy (get_prop (load h3 options) ''blockInfo'')
             then get_prop (get_prop (load h3 options) ''blockInfo'') ''epoch''
             else JUndefined)
      in (h3, epochIndex, load h3 query', useTransaction))"

text \<open>The \<open>catch\<close> block of \<open>find\<close>.\<close>

definition find_catch :: "error \<Rightarrow> error" where
  "find_catch e =
     (if startsWith (message e) ''query: ''
      then InvalidQueryError (substring (message e) 7 (length (message e)))
      else if startsWith (message e) ''structure: ''
      then InvalidQueryError (substring (message e) 11 (length (message e)))
      else if startsWith (message e) ''contract: ''
      then InvalidQueryError (substring (message e) 10 (length (message e)))
      else if startsWith (message e) ''protocol: ''
      then InvalidQueryError (substring (message e) 10 (length (message e)))
      else e)"

text \<open>
  \<open>find\<close> itself, named \<open>find_documents\<close> because \<open>find\<close> is a function on lists.
  \<open>queryDocuments\<close> is the method of the drive behind \<open>this.storage.getDrive()\<close>; it
  returns the documents with the processing cost, or throws.
\<close>

definition find_documents ::
  "('dc \<Rightarrow> string \<Rightarrow> jsval \<Rightarrow> jsval \<Rightarrow> jsval \<Rightarrow> error + 'docs \<times> int) \<Rightarrow>
   heap \<Rightarrow> 'dc \<Rightarrow> string \<Rightarrow> jsarg \<Rightarrow> (error + 'docs storageResult) \<times> heap" where
  "find_documents queryDocuments h dataContract documentType optionsArg =
     (let (h', epochIndex, query, useTransaction) = find_prepare h optionsArg
      in (case queryDocuments dataContract documentType epochIndex query useTransaction of
            Inr (documents, processingCost) \<Rightarrow>
              Inr \<lparr>resultValue = documents,
                   operations = [PreCalculatedOperation 0 processingCost []]\<rparr>
          | Inl e \<Rightarrow> Inl (find_catch e),
          h'))"

section \<open>DocumentRepository.prove\<close>

text \<open>
  What \<open>prove\<close> does before it calls the store: the heap afterwards, and the
  \<open>query\<close> and \<open>useTransaction\<close> arguments of \<open>proveDocumentsQuery\<close>.
\<close>

definition prove_prepare :: "heap \<Rightarrow> jsarg \<Rightarrow> heap \<times> jsval \<times> jsval" where
  "prove_prepare h0 optionsArg =
     (let (h1, options) = default_empty_object h0 optionsArg;
          (h2, query) = lodashCloneDeep h1 options;
          (useTransaction, (h3, query')) =
            (if is_non_array_object (load h2 query)
             then (get_prop (load h2 query) ''useTransaction'',
                   modify remove_undefined
                    (modify (delete_prop ''dryRun'')
                      (modify (delete_prop ''useTransaction'') (h2, query))))
             else (JBool False, (h2, query)))
      in (h3, load h3 query', useTransaction))"

text \<open>The \<open>catch\<close> block of \<open>prove\<close>.\<close>

definition prove_catch :: "error \<Rightarrow> error" where
  "prove_catch e =
     (if startsWith (message e) ''query: ''
      then InvalidQueryError (substring (message e) 7 (length (message e)))
      else if startsWith (message e) ''structure: ''
      then InvalidQueryError (substring (message e) 11 (length (message e)))
      else if startsWith (message e) ''contract: ''
      then InvalidQueryError (substring (message e) 10 (length (message e)))
      else e)"

definition prove ::
  "('dc \<Rightarrow> string \<Rightarrow> jsval \<Rightarrow> jsval \<Rightarrow> error + 'proof \<times> int) \<Rightarrow>
   heap \<Rightarrow> 'dc \<Rightarrow> string \<Rightarrow> jsarg \<Rightarrow> (error + 'proof storageResult) \<times> heap" where
  "prove proveDocumentsQuery h dataContract documentType optionsArg =
     (let (h', query, useTransaction) = prove_prepare h optionsArg
      in (case proveDocumentsQuery dataContract documentType query useTransaction of
            Inr (prove, processingCost) \<Rightarrow>
              Inr \<lparr>resultValue = prove,
                   operations = [PreCalculatedOperation 0 processingCost []]\<rparr>
          | Inl e \<Rightarrow> Inl (prove_catch e),
          h'))"

section \<open>DocumentRepository.create, update and delete\<close>

text \<open>\<open>buffer.toString('hex')\<close>: two lower case hexadecimal digits for each byte.\<close>

definition hex_digit :: "nat \<Rightarrow> char" where
  "hex_digit n = ''0123456789abcdef'' ! (n mod 16)"

definition hex :: "buffer \<Rightarrow> string" where
  "hex b = concat (map (\<lambda>w. [hex_digit (unat w div 16), hex_digit (unat w mod 16)]) b)"

text \<open>
  \<open>options.name\<close> where \<open>options\<close> may be \<open>null\<close>: reading a property of \<open>null\<close> or
  of \<open>undefined\<close> throws a TypeError.
\<close>

definition member :: "jsval \<Rightarrow> string \<Rightarrow> error + jsval" where
  "member v name =
     (if v = JUndefined \<or> v = JNull
      then Inl (TypeError (''Cannot read properties of null (reading '' @ name @ '')''))
      else Inr (get_prop v name))"

text \<open>The parameter default \<open>options = {}\<close> of a parameter that is only read.\<close>

definition default_options :: "jsval \<Rightarrow> jsval" where
  "default_options options = (if options = JUndefined then JObj [] else options)"

text \<open>
  The logger, when the repository has one, is the list of the entries that
  \<open>logger.info(fields, message)\<close> has received, the oldest first.
\<close>

type_synonym logger = "(jsval \<times> string) list"

text \<open>
  \<open>return new StorageResult(undefined, [new PreCalculatedOperation(feeResult.storageFee,
  feeResult.processingFee, feeResult.feeRefunds)])\<close>
\<close>

definition fee_storage_result :: "feeResult \<Rightarrow> unit storageResult" where
  "fee_storage_result feeResult =
     \<lparr>resultValue = (),
      operations = [PreCalculatedOperation (storageFee feeResult) (processingFee feeResult)
                      (feeRefunds feeResult)]\<rparr>"

text \<open>
  \<open>try { ... } finally { ... }\<close>: an exception thrown by the \<open>finally\<close> block replaces
  the outcome of the \<open>try\<close> block, be it a value or an exception; a \<open>finally\<close> block that
  ends normally leaves that outcome as it is.
\<close>

definition after_finally :: "error option \<Rightarrow> error + 'a \<Rightarrow> error + 'a" where
  "after_finally thrown outcome = (case thrown of Some e \<Rightarrow> Inl e | None \<Rightarrow> outcome)"

text \<open>
  The store is a state \<open>'s\<close>; \<open>createDocument\<close>, \<open>updateDocument\<close> and \<open>deleteDocument\<close>
  return the fee signal or throw, and leave a new state; \<open>getRootHash\<close> reads the state.
  \<open>toBuffer\<close> serializes a document and \<open>sha256\<close> is
  \<open>createHash('sha256').update(b).digest('hex')\<close>.
\<close>

definition create ::
  "('doc \<Rightarrow> 'bi \<Rightarrow> bool \<Rightarrow> bool \<Rightarrow> 's \<Rightarrow> (error + feeResult) \<times> 's) \<Rightarrow>
   (jsval \<Rightarrow> 's \<Rightarrow> error + buffer) \<Rightarrow> ('doc \<Rightarrow> buffer) \<Rightarrow> (buffer \<Rightarrow> string) \<Rightarrow>
   's \<times> logger option \<Rightarrow> 'doc \<Rightarrow> 'bi \<Rightarrow> jsval \<Rightarrow>
   (error + unit storageResult) \<times> 's \<times> logger option" where
  "create createDocument getRootHash toBuffer sha256 st document blockInfo optionsArg =
     (let options = default_options optionsArg;
          (s, logger) = st;
          (feeResult, s') =
            (case member options ''useTransaction'' of
               Inl e \<Rightarrow> (Inl e, s)
             | Inr useTransaction \<Rightarrow>
                 (case member options ''dryRun'' of
                    Inl e \<Rightarrow> (Inl e, s)
                  | Inr dryRun \<Rightarrow>
                      createDocument document blockInfo (truthy useTransaction) (truthy dryRun) s));
          (thrown, logger') =
            (case logger of
               None \<Rightarrow> (None, None)
             | Some entries \<Rightarrow>
                 (case member options ''useTransaction'' of
                    Inl e \<Rightarrow> (Some e, Some entries)
                  | Inr useTransaction \<Rightarrow>
                      (case member options ''dryRun'' of
                         Inl e \<Rightarrow> (Some e, Some entries)
                       | Inr dryRun \<Rightarrow>
                           (case getRootHash options s' of
                              Inl e \<Rightarrow> (Some e, Some entries)
                            | Inr appHash \<Rightarrow>
                                (None,
                                 Some (entries @
                                   [(JObj [(''document'', JStr (hex (toBuffer document))),
                                           (''documentHash'', JStr (sha256 (toBuffer document))),
                                           (''useTransaction'', JBool (truthy useTransaction)),
                                           (''dryRun'', JBool (truthy dryRun)),
                                           (''appHash'', JStr (hex appHash))],
                                     ''createDocument'')]))))))
      in (after_finally thrown (map_sum id fee_storage_result feeResult), s', logger'))"

definition update ::
  "('doc \<Rightarrow> 'bi \<Rightarrow> bool \<Rightarrow> bool \<Rightarrow> 's \<Rightarrow> (error + feeResult) \<times> 's) \<Rightarrow>
   (jsval \<Rightarrow> 's \<Rightarrow> error + buffer) \<Rightarrow> ('doc \<Rightarrow> buffer) \<Rightarrow> (buffer \<Rightarrow> string) \<Rightarrow>
   's \<times> logger option \<Rightarrow> 'doc \<Rightarrow> 'bi \<Rightarrow> jsval \<Rightarrow>
   (error + unit storageResult) \<times> 's \<times> logger option" where
  "update updateDocument getRootHash toBuffer sha256 st document blockInfo optionsArg =
     (let options = default_options optionsArg;
          (s, logger) = st;
          (feeResult, s') =
            (case member options ''useTransaction'' of
               Inl e \<Rightarrow> (Inl e, s)
             | Inr useTransaction \<Rightarrow>
                 (case member options ''dryRun'' of
                    Inl e \<Rightarrow> (Inl e, s)
                  | Inr dryRun \<Rightarrow>
                      updateDocument document blockInfo (truthy useTransaction) (truthy dryRun) s));
          (thrown, logger') =
            (case logger of
               None \<Rightarrow> (None, None)
             | Some entries \<Rightarrow>
                 (case member options ''useTransaction'' of
                    Inl e \<Rightarrow> (Some e, Some entries)
                  | Inr useTransaction \<Rightarrow>
                      (case member options ''dryRun'' of
                         Inl e \<Rightarrow> (Some e, Some entries)
                       | Inr dryRun \<Rightarrow>
                           (case getRootHash options s' of
                              Inl e \<Rightarrow> (Some e, Some entries)
                            | Inr appHash \<Rightarrow>
                                (None,
                                 Some (entries @
                                   [(JObj [(''document'', JStr (hex (toBuffer document))),
                                           (''documentHash'', JStr (sha256 (toBuffer document))),
                                           (''useTransaction'', JBool (truthy useTransaction)),
                                           (''dryRun'', JBool (truthy dryRun)),
                                           (''appHash'', JStr (hex appHash))],
                                     ''updateDocument'')]))))))
      in (after_finally thrown (map_sum id fee_storage_result feeResult), s', logger'))"

text \<open>
  \<open>getId\<close> is \<open>dataContract.getId()\<close>; \<open>idToString\<close> is the \<open>toString()\<close> of an
  identifier. The log entry of \<open>delete\<close> has no \<open>dryRun\<close> field.
\<close>

definition delete ::
  "('id \<Rightarrow> string \<Rightarrow> 'id \<Rightarrow> 'bi \<Rightarrow> bool \<Rightarrow> bool \<Rightarrow> 's \<Rightarrow> (error + feeResult) \<times> 's) \<Rightarrow>
   (jsval \<Rightarrow> 's \<Rightarrow> error + buffer) \<Rightarrow> ('dc \<Rightarrow> 'id) \<Rightarrow> ('id \<Rightarrow> string) \<Rightarrow>
   's \<times> logger option \<Rightarrow> 'dc \<Rightarrow> string \<Rightarrow> 'id \<Rightarrow> 'bi \<Rightarrow> jsval \<Rightarrow>
   (error + unit storageResult) \<times> 's \<times> logger option" where
  "delete deleteDocument getRootHash getId idToString st dataContract documentType ident
       blockInfo optionsArg =
     (let options = default_options optionsArg;
          (s, logger) = st;
          (feeResult, s') =
            (case member options ''useTransaction'' of
               Inl e \<Rightarrow> (Inl e, s)
             | Inr useTransaction \<Rightarrow>
                 (case member options ''dryRun'' of
                    Inl e \<Rightarrow> (Inl e, s)
                  | Inr dryRun \<Rightarrow>
                      deleteDocument (getId dataContract) documentType ident blockInfo
                        (truthy useTransaction) (truthy dryRun) s));
          (thrown, logger') =
            (case logger of
               None \<Rightarrow> (None, None)
             | Some entries \<Rightarrow>
                 (case member options ''useTransaction'' of
                    Inl e \<Rightarrow> (Some e, Some entries)
                  | Inr useTransaction \<Rightarrow>
                      (case getRootHash options s' of
                         Inl e \<Rightarrow> (Some e, Some entries)
                       | Inr appHash \<Rightarrow>
                           (None,
                            Some (entries @
                              [(JObj [(''dataContractId'', JStr (idToString (getId dataContract))),
                                      (''documentType'', JStr documentType),
                                      (''id'', JStr (idToString ident)),
                                      (''useTransaction'', JBool (truthy useTransaction)),
                                      (''appHash'', JStr (hex appHash))],
                                ''deleteDocument'')])))))
      in (after_finally thrown (map_sum id fee_storage_result feeResult), s', logger'))"

section \<open>DocumentRepository.proveManyDocumentsFromDifferentContracts\<close>

text \<open>An item of the argument: \<open>{ dataContractId: Buffer, documentId: Buffer, type: string }\<close>.\<close>

record documentKey =
  dataContractId :: buffer
  documentId :: buffer
  type :: string

text \<open>
  \<open>TREE_PATH\<close> is the constant \<open>DataContractStoreRepository.TREE_PATH\<close>, a list of
  Buffers, and \<open>proveQueryMany\<close> the method of the store. \<open>Buffer.from(type)\<close> is the
  bytes of the string. The path queries are the object literals of the source.
\<close>

definition proveManyDocumentsFromDifferentContracts ::
  "(jsval list \<Rightarrow> error + 'r) \<Rightarrow> buffer list \<Rightarrow> documentKey list \<Rightarrow> error + 'r" where
  "proveManyDocumentsFromDifferentContracts proveQueryMany TREE_PATH documents =
     (let queries =
            map (\<lambda>d.
                  let dataContractsDocumentsPath =
                        [dataContractId d, [1], map of_char (type d), [0]]
                  in JObj [(''path'', JArr (map JBuf (TREE_PATH @ dataContractsDocumentsPath))),
                           (''query'',
                              JObj [(''query'',
                                JObj [(''items'',
                                  JArr [JObj [(''type'', JStr ''key''),
                                              (''key'', JBuf (documentId d))]])])])])
                documents
      in proveQueryMany queries)"

section \<open>DriveClient.request\<close>

text \<open>
  What \<open>request\<close> throws: an \<open>RPCError(code, message, data)\<close>, the error that
  \<open>createGrpcErrorFromDriveResponse\<close> builds (or throws), a TypeError of the language, or
  whatever the transport rejected with.
\<close>

datatype ('g, 't) request_error =
    RPCError jsval jsval jsval
  | DriveResponseError 'g
  | RequestTypeError string
  | TransportError 't

text \<open>
  \<open>Buffer.from(value, 'base64')\<close>: a string is decoded (\<open>base64_decode\<close>);
  \<open>undefined\<close>, \<open>null\<close>, a boolean and a number are refused with a TypeError; what Node
  does with an object, an array or a Buffer is \<open>bufferFromObject\<close>.
\<close>

fun buffer_from_base64 ::
  "(string \<Rightarrow> buffer) \<Rightarrow> (jsval \<Rightarrow> ('g, 't) request_error + buffer) \<Rightarrow> jsval \<Rightarrow>
   ('g, 't) request_error + buffer" where
  "buffer_from_base64 base64_decode bufferFromObject (JStr s) = Inr (base64_decode s)"
| "buffer_from_base64 base64_decode bufferFromObject (JBuf b) = bufferFromObject (JBuf b)"
| "buffer_from_base64 base64_decode bufferFromObject (JArr xs) = bufferFromObject (JArr xs)"
| "buffer_from_base64 base64_decode bufferFromObject (JObj kvs) = bufferFromObject (JObj kvs)"
| "buffer_from_base64 base64_decode bufferFromObject v =
     Inl (RequestTypeError ''The first argument must be of type string or an instance of Buffer, ArrayBuffer, or Array or an Array-like Object.'')"

text \<open>Reading or destructuring a property of \<open>undefined\<close> or \<open>null\<close> throws.\<close>

definition request_member :: "jsval \<Rightarrow> string \<Rightarrow> ('g, 't) request_error + jsval" where
  "request_member v name =
     (if v = JUndefined \<or> v = JNull
      then Inl (RequestTypeError (''Cannot read properties of undefined (reading '' @ name @ '')''))
      else Inr (get_prop v name))"

text \<open>The request that goes to the transport: \<open>{ path, data, prove }\<close>.\<close>

definition request_options :: "(jsval \<Rightarrow> buffer) \<Rightarrow> string \<Rightarrow> jsval \<Rightarrow> jsval \<Rightarrow> jsval" where
  "request_options cbor_encode path dataArg proveArg =
     (let data = default_options dataArg;
          prove = (if proveArg = JUndefined then JBool False else proveArg);
          encodedData = cbor_encode data
      in JObj [(''path'', JStr path), (''data'', JStr (hex encodedData)), (''prove'', prove)])"

text \<open>What \<open>request\<close> does with the reply \<open>{ result, error }\<close> of the transport.\<close>

definition handle_reply ::
  "(string \<Rightarrow> buffer) \<Rightarrow> (jsval \<Rightarrow> ('g, 't) request_error + buffer) \<Rightarrow> (jsval \<Rightarrow> jsval \<Rightarrow> 'g) \<Rightarrow>
   jsval \<Rightarrow> ('g, 't) request_error + buffer" where
  "handle_reply base64_decode bufferFromObject createGrpcErrorFromDriveResponse reply =
     (case request_member reply ''result'' of
        Inl e \<Rightarrow> Inl e
      | Inr result \<Rightarrow>
          (let error = get_prop reply ''error'' in
           if truthy error
           then Inl (RPCError (js_or (get_prop error ''code'') (JNum (- 32602)))
                              (js_or (get_prop error ''message'') (JStr ''Internal error''))
                              (get_prop error ''data''))
           else (case request_member result ''response'' of
                   Inl e \<Rightarrow> Inl e
                 | Inr response \<Rightarrow>
                     (case request_member response ''code'' of
                        Inl e \<Rightarrow> Inl e
                      | Inr code \<Rightarrow>
                          if code = JUndefined \<or> code = JNum 0
                          then buffer_from_base64 base64_decode bufferFromObject
                                 (get_prop response ''value'')
                          else Inl (DriveResponseError
                                 (createGrpcErrorFromDriveResponse code
                                    (get_prop response ''info'')))))))"

text \<open>
  \<open>cbor_encode\<close> is \<open>cbor.encode\<close> of the cbor package and \<open>client_request\<close> the
  \<open>request\<close> method of the jayson client, which answers with a reply or rejects.
\<close>

definition request ::
  "(jsval \<Rightarrow> buffer) \<Rightarrow> (string \<Rightarrow> buffer) \<Rightarrow> (jsval \<Rightarrow> ('g, 't) request_error + buffer) \<Rightarrow>
   (jsval \<Rightarrow> jsval \<Rightarrow> 'g) \<Rightarrow> (string \<Rightarrow> jsval \<Rightarrow> 't + jsval) \<Rightarrow>
   string \<Rightarrow> jsval \<Rightarrow> jsval \<Rightarrow> ('g, 't) request_error + buffer" where
  "request cbor_encode base64_decode bufferFromObject createGrpcErrorFromDriveResponse
       client_request path dataArg proveArg =
     (case client_request ''abci_query'' (request_options cbor_encode path dataArg proveArg) of
        Inl rejected \<Rightarrow> Inl (TransportError rejected)
      | Inr reply \<Rightarrow>
          handle_reply base64_decode bufferFromObject createGrpcErrorFromDriveResponse reply)"

section \<open>The store's query translation\<close>

text \<open>
  Modelled from the spec: the query translation of the store behind
  \<open>queryDocuments\<close> (the drive; its code is not among the sources), which, in the words
  of the specification, has to "reject a Query that sets both \<open>startAt\<close> and \<open>startAfter\<close>
  with \<open>InvalidQueryError\<close>". \<open>reason\<close> is the message it gives; every other query goes
  on to the traversal \<open>backend\<close>.
\<close>

definition queryDocuments_translated ::
  "string \<Rightarrow> ('dc \<Rightarrow> string \<Rightarrow> jsval \<Rightarrow> jsval \<Rightarrow> jsval \<Rightarrow> error + 'docs \<times> int) \<Rightarrow>
   'dc \<Rightarrow> string \<Rightarrow> jsval \<Rightarrow> jsval \<Rightarrow> jsval \<Rightarrow> error + 'docs \<times> int" where
  "queryDocuments_translated reason backend dataContract documentType epochIndex query
       useTransaction =
     (if get_prop query ''startAt'' \<noteq> JUndefined \<and> get_prop query ''startAfter'' \<noteq> JUndefined
      then Inl (InvalidQueryError reason)
      else backend dataContract documentType epochIndex query useTransaction)"

section \<open>Reclassification of store errors\<close>

lemma startsWith_append: "startsWith (p @ m) p"
  by (simp add: startsWith_def)

lemma startsWith_iff: "startsWith s p \<longleftrightarrow> (\<exists>m. s = p @ m)"
proof
  assume "startsWith s p"
  then have "s = p @ drop (length p) s"
    unfolding startsWith_def by (metis append_take_drop_id)
  then show "\<exists>m. s = p @ m" ..
next
  assume "\<exists>m. s = p @ m"
  then show "startsWith s p" by (auto simp: startsWith_append)
qed

lemma substring_to_end: "substring s n (length s) = drop n s"
  by (simp add: substring_def Let_def min_def max_def)

lemma find_catch_drop:
  "find_catch e =
     (if startsWith (message e) ''query: '' then InvalidQueryError (drop 7 (message e))
      else if startsWith (message e) ''structure: '' then InvalidQueryError (drop 11 (message e))
      else if startsWith (message e) ''contract: '' then InvalidQueryError (drop 10 (message e))
      else if startsWith (message e) ''protocol: '' then InvalidQueryError (drop 10 (message e))
      else e)"
  unfolding find_catch_def substring_to_end ..

lemma prove_catch_drop:
  "prove_catch e =
     (if startsWith (message e) ''query: '' then InvalidQueryError (drop 7 (message e))
      else if startsWith (message e) ''structure: '' then InvalidQueryError (drop 11 (message e))
      else if startsWith (message e) ''contract: '' then InvalidQueryError (drop 10 (message e))
      else e)"
  unfolding prove_catch_def substring_to_end ..

lemma find_catch_query:
  "message e = ''query: '' @ m \<Longrightarrow> find_catch e = InvalidQueryError m"
  by (simp add: find_catch_drop startsWith_def)

lemma find_catch_structure:
  "message e = ''structure: '' @ m \<Longrightarrow> find_catch e = InvalidQueryError m"
  by (simp add: find_catch_drop startsWith_def)

lemma find_catch_contract:
  "message e = ''contract: '' @ m \<Longrightarrow> find_catch e = InvalidQueryError m"
  by (simp add: find_catch_drop startsWith_def)

lemma find_catch_protocol:
  "message e = ''protocol: '' @ m \<Longrightarrow> find_catch e = InvalidQueryError m"
  by (simp add: find_catch_drop startsWith_def)

lemma find_catch_other:
  assumes "\<forall>m. message e \<noteq> ''query: '' @ m" "\<forall>m. message e \<noteq> ''structure: '' @ m"
    "\<forall>m. message e \<noteq> ''contract: '' @ m" "\<forall>m. message e \<noteq> ''protocol: '' @ m"
  shows "find_catch e = e"
  using assms unfolding find_catch_def startsWith_iff by simp

lemma prove_catch_query:
  "message e = ''query: '' @ m \<Longrightarrow> prove_catch e = InvalidQueryError m"
  by (simp add: prove_catch_drop startsWith_def)

lemma prove_catch_structure:
  "message e = ''structure: '' @ m \<Longrightarrow> prove_catch e = InvalidQueryError m"
  by (simp add: prove_catch_drop startsWith_def)

lemma prove_catch_contract:
  "message e = ''contract: '' @ m \<Longrightarrow> prove_catch e = InvalidQueryError m"
  by (simp add: prove_catch_drop startsWith_def)

lemma prove_catch_other:
  assumes "\<forall>m. message e \<noteq> ''query: '' @ m" "\<forall>m. message e \<noteq> ''structure: '' @ m"
    "\<forall>m. message e \<noteq> ''contract: '' @ m"
  shows "prove_catch e = e"
  using assms unfolding prove_catch_def startsWith_iff by simp

lemma prove_catch_protocol:
  "message e = ''protocol: '' @ m \<Longrightarrow> prove_catch e = e"
  by (rule prove_catch_other) simp_all

lemma find_fails:
  assumes "find_prepare h opts = (h', epochIndex, query, useTransaction)"
    and "queryDocuments dc dt epochIndex query useTransaction = Inl e"
  shows "fst (find_documents queryDocuments h dc dt opts) = Inl (find_catch e)"
  using assms by (simp add: find_documents_def)

lemma prove_fails:
  assumes "prove_prepare h opts = (h', query, useTransaction)"
    and "proveDocumentsQuery dc dt query useTransaction = Inl e"
  shows "fst (prove proveDocumentsQuery h dc dt opts) = Inl (prove_catch e)"
  using assms by (simp add: prove_def)

section \<open>Claims about error reclassification\<close>

text \<open>
  C1. Whenever the store's \<open>queryDocuments\<close> throws an error \<open>e\<close> during \<open>find\<close>:
  if the message of \<open>e\<close> starts with \<open>query: \<close>, \<open>structure: \<close>, \<open>contract: \<close> or
  \<open>protocol: \<close>, then \<open>find\<close> throws \<open>InvalidQueryError\<close> whose message is the message
  of \<open>e\<close> with that prefix removed; if the message starts with none of them, \<open>find\<close>
  throws \<open>e\<close> itself.
\<close>

theorem find_reclassifies_store_error:
  assumes "find_prepare h opts = (h', epochIndex, query, useTransaction)"
    and "queryDocuments dc dt epochIndex query useTransaction = Inl e"
  shows "(\<forall>p \<in> set [''query: '', ''structure: '', ''contract: '', ''protocol: '']. \<forall>m.
            message e = p @ m \<longrightarrow>
            fst (find_documents queryDocuments h dc dt opts) = Inl (InvalidQueryError m))
       \<and> ((\<forall>p \<in> set [''query: '', ''structure: '', ''contract: '', ''protocol: '']. \<forall>m.
              message e \<noteq> p @ m) \<longrightarrow>
            fst (find_documents queryDocuments h dc dt opts) = Inl e)"
proof -
  have r: "fst (find_documents queryDocuments h dc dt opts) = Inl (find_catch e)"
    using assms by (rule find_fails)
  have known: "find_catch e = InvalidQueryError m"
    if "p \<in> set [''query: '', ''structure: '', ''contract: '', ''protocol: '']"
      and "message e = p @ m" for p m
  proof -
    from that(1) consider "p = ''query: ''" | "p = ''structure: ''"
      | "p = ''contract: ''" | "p = ''protocol: ''"
      by auto
    then show ?thesis
    proof cases
      case 1 with that(2) show ?thesis by (simp only: find_catch_query)
    next
      case 2 with that(2) show ?thesis by (simp only: find_catch_structure)
    next
      case 3 with that(2) show ?thesis by (simp only: find_catch_contract)
    next
      case 4 with that(2) show ?thesis by (simp only: find_catch_protocol)
    qed
  qed
  have other: "find_catch e = e"
    if "\<forall>p \<in> set [''query: '', ''structure: '', ''contract: '', ''protocol: '']. \<forall>m.
          message e \<noteq> p @ m"
    by (rule find_catch_other) (use that in simp_all)
  show ?thesis
    unfolding r using known other by blast
qed

theorem find_reclassifies_store_error_witness:
  "fst (find_documents
          (\<lambda>(dc::unit) dt epochIndex query useTransaction.
              Inl (BackendError ''query: bad clause'' JNull) :: error + nat list \<times> int)
          [] () ''note'' (Prim JUndefined))
     = Inl (InvalidQueryError ''bad clause'')
   \<and> fst (find_documents
          (\<lambda>(dc::unit) dt epochIndex query useTransaction.
              Inl (BackendError ''storage: corrupted'' (JNum 5)) :: error + nat list \<times> int)
          [] () ''note'' (Prim JUndefined))
     = Inl (BackendError ''storage: corrupted'' (JNum 5))"
proof -
  let ?q = "\<lambda>(dc::unit) (dt::string) (ep::jsval) (q::jsval) (u::jsval).
              Inl (BackendError ''query: bad clause'' JNull) :: error + nat list \<times> int"
  let ?s = "\<lambda>(dc::unit) (dt::string) (ep::jsval) (q::jsval) (u::jsval).
              Inl (BackendError ''storage: corrupted'' (JNum 5)) :: error + nat list \<times> int"
  have p: "find_prepare [] (Prim JUndefined) = ([JObj [], JObj []], JUndefined, JObj [], JUndefined)"
    by (simp add: find_prepare_def remove_undefined_def)
  have a: "fst (find_documents ?q [] () ''note'' (Prim JUndefined)) = Inl (InvalidQueryError ''bad clause'')"
    using find_reclassifies_store_error [of "[]" "Prim JUndefined" _ _ _ _ ?q "()" "''note''"
        "BackendError ''query: bad clause'' JNull", OF p]
    by simp
  have b: "fst (find_documents ?s [] () ''note'' (Prim JUndefined))
             = Inl (BackendError ''storage: corrupted'' (JNum 5))"
    using find_reclassifies_store_error [of "[]" "Prim JUndefined" _ _ _ _ ?s "()" "''note''"
        "BackendError ''storage: corrupted'' (JNum 5)", OF p]
    by simp
  from a b show ?thesis by simp
qed

text \<open>
  C2. Whenever the store's \<open>proveDocumentsQuery\<close> throws an error \<open>e\<close> during \<open>prove\<close>:
  if the message of \<open>e\<close> starts with \<open>query: \<close>, \<open>structure: \<close> or \<open>contract: \<close>, then
  \<open>prove\<close> throws \<open>InvalidQueryError\<close> with the prefix removed; if it starts with
  \<open>protocol: \<close>, then \<open>prove\<close> throws \<open>e\<close> itself, whereas a \<open>find\<close> whose store call
  throws the same \<open>e\<close> throws \<open>InvalidQueryError\<close> with the prefix removed.
\<close>

theorem prove_reclassifies_but_not_protocol:
  assumes "prove_prepare h opts = (h', query, useTransaction)"
    and "proveDocumentsQuery dc dt query useTransaction = Inl e"
    and "find_prepare hf optsf = (hf', epochIndex, queryf, useTransactionf)"
    and "queryDocuments dcf dtf epochIndex queryf useTransactionf = Inl e"
  shows "(\<forall>p \<in> set [''query: '', ''structure: '', ''contract: '']. \<forall>m.
            message e = p @ m \<longrightarrow>
            fst (prove proveDocumentsQuery h dc dt opts) = Inl (InvalidQueryError m))
       \<and> (\<forall>m. message e = ''protocol: '' @ m \<longrightarrow>
            fst (prove proveDocumentsQuery h dc dt opts) = Inl e
          \<and> fst (find_documents queryDocuments hf dcf dtf optsf) = Inl (InvalidQueryError m))"
proof -
  have r: "fst (prove proveDocumentsQuery h dc dt opts) = Inl (prove_catch e)"
    using assms(1,2) by (rule prove_fails)
  have f: "fst (find_documents queryDocuments hf dcf dtf optsf) = Inl (find_catch e)"
    using assms(3,4) by (rule find_fails)
  have known: "prove_catch e = InvalidQueryError m"
    if "p \<in> set [''query: '', ''structure: '', ''contract: '']" and "message e = p @ m" for p m
  proof -
    from that(1) consider "p = ''query: ''" | "p = ''structure: ''" | "p = ''contract: ''"
      by auto
    then show ?thesis
    proof cases
      case 1 with that(2) show ?thesis by (simp only: prove_catch_query)
    next
      case 2 with that(2) show ?thesis by (simp only: prove_catch_structure)
    next
      case 3 with that(2) show ?thesis by (simp only: prove_catch_contract)
    qed
  qed
  have protocol: "prove_catch e = e \<and> find_catch e = InvalidQueryError m"
    if "message e = ''protocol: '' @ m" for m
    using that by (simp only: prove_catch_protocol find_catch_protocol)
  show ?thesis
    unfolding r f using known protocol by blast
qed

theorem prove_reclassifies_but_not_protocol_witness:
  "fst (prove
          (\<lambda>(dc::unit) dt query useTransaction.
              Inl (BackendError ''protocol: unknown version'' JNull) :: error + buffer \<times> int)
          [] () ''note'' (Prim JUndefined))
     = Inl (BackendError ''protocol: unknown version'' JNull)
   \<and> fst (find_documents
          (\<lambda>(dc::unit) dt epochIndex query useTransaction.
              Inl (BackendError ''protocol: unknown version'' JNull) :: error + nat list \<times> int)
          [] () ''note'' (Prim JUndefined))
     = Inl (InvalidQueryError ''unknown version'')"
proof -
  let ?e = "BackendError ''protocol: unknown version'' JNull"
  let ?p = "\<lambda>(dc::unit) (dt::string) (q::jsval) (u::jsval). Inl ?e :: error + buffer \<times> int"
  let ?q = "\<lambda>(dc::unit) (dt::string) (ep::jsval) (q::jsval) (u::jsval).
              Inl ?e :: error + nat list \<times> int"
  have p: "prove_prepare [] (Prim JUndefined) = ([JObj [], JObj []], JObj [], JUndefined)"
    by (simp add: prove_prepare_def remove_undefined_def)
  have q: "find_prepare [] (Prim JUndefined) = ([JObj [], JObj []], JUndefined, JObj [], JUndefined)"
    by (simp add: find_prepare_def remove_undefined_def)
  show ?thesis
    using prove_reclassifies_but_not_protocol [of "[]" "Prim JUndefined" _ _ _ ?p "()" "''note''"
        ?e "[]" "Prim JUndefined" _ _ _ _ ?q "()" "''note''", OF p _ q]
    by simp
qed

section \<open>Claims about the fee operation of reads\<close>

lemma find_succeeds:
  assumes "find_prepare h opts = (h', epochIndex, query, useTransaction)"
    and "queryDocuments dc dt epochIndex query useTransaction = Inr (documents, processingCost)"
  shows "fst (find_documents queryDocuments h dc dt opts) =
           Inr \<lparr>resultValue = documents,
                operations = [PreCalculatedOperation 0 processingCost []]\<rparr>"
  using assms by (simp add: find_documents_def)

lemma prove_succeeds:
  assumes "prove_prepare h opts = (h', query, useTransaction)"
    and "proveDocumentsQuery dc dt query useTransaction = Inr (proofData, processingCost)"
  shows "fst (prove proveDocumentsQuery h dc dt opts) =
           Inr \<lparr>resultValue = proofData,
                operations = [PreCalculatedOperation 0 processingCost []]\<rparr>"
  using assms by (simp add: prove_def)

text \<open>
  C6. Every successful \<open>find\<close> and every successful \<open>prove\<close> returns a StorageResult
  with exactly one fee operation: its storage fee is zero, its processing fee is the
  processing cost that the store reported with the documents (or the proof), and its list
  of refunds is empty.
\<close>

theorem read_results_carry_one_processing_fee:
  assumes "find_prepare h opts = (h', epochIndex, query, useTransaction)"
    and "prove_prepare hp optsp = (hp', queryp, useTransactionp)"
  shows "(\<forall>r. fst (find_documents queryDocuments h dc dt opts) = Inr r \<longrightarrow>
            (\<exists>documents processingCost.
               queryDocuments dc dt epochIndex query useTransaction = Inr (documents, processingCost)
             \<and> resultValue r = documents
             \<and> operations r =
                 [PreCalculatedOperation 0 processingCost []]))
       \<and> (\<forall>r. fst (prove proveDocumentsQuery hp dcp dtp optsp) = Inr r \<longrightarrow>
            (\<exists>proofData processingCost.
               proveDocumentsQuery dcp dtp queryp useTransactionp = Inr (proofData, processingCost)
             \<and> resultValue r = proofData
             \<and> operations r =
                 [PreCalculatedOperation 0 processingCost []]))"
proof (intro conjI allI impI)
  fix r assume ok: "fst (find_documents queryDocuments h dc dt opts) = Inr r"
  show "\<exists>documents processingCost.
          queryDocuments dc dt epochIndex query useTransaction = Inr (documents, processingCost)
        \<and> resultValue r = documents
        \<and> operations r = [PreCalculatedOperation 0 processingCost []]"
  proof (cases "queryDocuments dc dt epochIndex query useTransaction")
    case (Inl e)
    with assms(1) have "fst (find_documents queryDocuments h dc dt opts) = Inl (find_catch e)"
      by (rule find_fails)
    with ok show ?thesis by simp
  next
    case (Inr dp)
    obtain documents processingCost where dp: "dp = (documents, processingCost)"
      by (cases dp)
    from find_succeeds [of h opts h' epochIndex query useTransaction queryDocuments dc dt
        documents processingCost] assms(1) Inr dp ok
    have "r = \<lparr>resultValue = documents,
               operations = [PreCalculatedOperation 0 processingCost []]\<rparr>"
      by simp
    with Inr dp show ?thesis by simp
  qed
next
  fix r assume ok: "fst (prove proveDocumentsQuery hp dcp dtp optsp) = Inr r"
  show "\<exists>proofData processingCost.
          proveDocumentsQuery dcp dtp queryp useTransactionp = Inr (proofData, processingCost)
        \<and> resultValue r = proofData
        \<and> operations r = [PreCalculatedOperation 0 processingCost []]"
  proof (cases "proveDocumentsQuery dcp dtp queryp useTransactionp")
    case (Inl e)
    with assms(2) have "fst (prove proveDocumentsQuery hp dcp dtp optsp) = Inl (prove_catch e)"
      by (rule prove_fails)
    with ok show ?thesis by simp
  next
    case (Inr dp)
    obtain proofData processingCost where dp: "dp = (proofData, processingCost)"
      by (cases dp)
    from prove_succeeds [of hp optsp hp' queryp useTransactionp proveDocumentsQuery dcp dtp
        proofData processingCost] assms(2) Inr dp ok
    have "r = \<lparr>resultValue = proofData,
               operations = [PreCalculatedOperation 0 processingCost []]\<rparr>"
      by simp
    with Inr dp show ?thesis by simp
  qed
qed

theorem read_results_carry_one_processing_fee_witness:
  "(\<exists>r. fst (find_documents
               (\<lambda>(dc::unit) dt epochIndex query useTransaction.
                   Inr ([1, 2::nat], 37) :: error + nat list \<times> int)
               [] () ''note'' (Prim JUndefined)) = Inr r
        \<and> operations r = [PreCalculatedOperation 0 37 []])
   \<and> (\<exists>r. fst (prove
               (\<lambda>(dc::unit) dt query useTransaction.
                   Inr ([7, 9::byte], 12) :: error + buffer \<times> int)
               [] () ''note'' (Prim JUndefined)) = Inr r
        \<and> operations r = [PreCalculatedOperation 0 12 []])"
proof -
  let ?q = "\<lambda>(dc::unit) (dt::string) (ep::jsval) (q::jsval) (u::jsval).
              Inr ([1, 2::nat], 37) :: error + nat list \<times> int"
  let ?p = "\<lambda>(dc::unit) (dt::string) (q::jsval) (u::jsval).
              Inr ([7, 9::byte], 12) :: error + buffer \<times> int"
  have q: "find_prepare [] (Prim JUndefined) = ([JObj [], JObj []], JUndefined, JObj [], JUndefined)"
    by (simp add: find_prepare_def remove_undefined_def)
  have p: "prove_prepare [] (Prim JUndefined) = ([JObj [], JObj []], JObj [], JUndefined)"
    by (simp add: prove_prepare_def remove_undefined_def)
  have a: "fst (find_documents ?q [] () ''note'' (Prim JUndefined)) =
             Inr \<lparr>resultValue = [1, 2],
                  operations = [PreCalculatedOperation 0 37 []]\<rparr>"
    by (simp add: find_documents_def q)
  have b: "fst (prove ?p [] () ''note'' (Prim JUndefined)) =
             Inr \<lparr>resultValue = [7, 9],
                  operations = [PreCalculatedOperation 0 12 []]\<rparr>"
    by (simp add: prove_def p)
  show ?thesis
    using read_results_carry_one_processing_fee [OF q p, of ?q "()" "''note''" ?p "()" "''note''"]
    unfolding a b by simp
qed

section \<open>What reaches the store\<close>

text \<open>One round of the loop over \<open>Object.keys(query)\<close>, on an object with distinct keys.\<close>

lemma remove_undefined_step:
  assumes "distinct (map fst kvs)"
  shows "(if get_prop (JObj kvs) k = JUndefined then delete_prop k (JObj kvs) else JObj kvs)
           = JObj (filter (\<lambda>kv. \<not> (fst kv = k \<and> snd kv = JUndefined)) kvs)"
proof (cases "map_of kvs k")
  case None
  then have "\<forall>kv \<in> set kvs. fst kv \<noteq> k"
    by (metis map_of_eq_None_iff image_eqI)
  then have "filter (\<lambda>kv. fst kv \<noteq> k) kvs = kvs"
    and "filter (\<lambda>kv. \<not> (fst kv = k \<and> snd kv = JUndefined)) kvs = kvs"
    by (simp_all add: filter_id_conv)
  with None show ?thesis by simp
next
  case (Some v)
  have only: "snd kv = v" if "kv \<in> set kvs" "fst kv = k" for kv
  proof -
    from that have "map_of kvs k = Some (snd kv)"
      using assms by (metis map_of_is_SomeI prod.collapse)
    with Some show ?thesis by simp
  qed
  show ?thesis
  proof (cases "v = JUndefined")
    case True
    have "filter (\<lambda>kv. fst kv \<noteq> k) kvs
            = filter (\<lambda>kv. \<not> (fst kv = k \<and> snd kv = JUndefined)) kvs"
      by (rule filter_cong) (use only True in auto)
    with Some True show ?thesis by simp
  next
    case False
    have "filter (\<lambda>kv. \<not> (fst kv = k \<and> snd kv = JUndefined)) kvs = kvs"
      unfolding filter_id_conv using only False by auto
    with Some False show ?thesis by simp
  qed
qed

lemma remove_undefined_fold:
  assumes "distinct (map fst kvs)"
  shows "fold (\<lambda>queryOption q. if get_prop q queryOption = JUndefined
                                then delete_prop queryOption q else q) ks (JObj kvs)
           = JObj (filter (\<lambda>kv. \<not> (fst kv \<in> set ks \<and> snd kv = JUndefined)) kvs)"
  using assms
proof (induction ks arbitrary: kvs)
  case Nil
  then show ?case by simp
next
  case (Cons k ks)
  let ?kvs' = "filter (\<lambda>kv. \<not> (fst kv = k \<and> snd kv = JUndefined)) kvs"
  have d: "distinct (map fst ?kvs')"
    using Cons.prems by (rule distinct_map_filter)
  have "filter (\<lambda>kv. \<not> (fst kv \<in> set ks \<and> snd kv = JUndefined)) ?kvs'
          = filter (\<lambda>kv. \<not> (fst kv \<in> set (k # ks) \<and> snd kv = JUndefined)) kvs"
    by (auto intro: filter_cong)
  with Cons.IH [OF d] remove_undefined_step [OF Cons.prems, of k]
  show ?case by simp
qed

lemma remove_undefined_object:
  assumes "distinct (map fst kvs)"
  shows "remove_undefined (JObj kvs) = JObj (filter (\<lambda>kv. snd kv \<noteq> JUndefined) kvs)"
proof -
  have "filter (\<lambda>kv. \<not> (fst kv \<in> set (map fst kvs) \<and> snd kv = JUndefined)) kvs
          = filter (\<lambda>kv. snd kv \<noteq> JUndefined) kvs"
    by (rule filter_cong) auto
  with remove_undefined_fold [OF assms, of "map fst kvs"]
  show ?thesis by (simp add: remove_undefined_def)
qed

lemma find_strip_object:
  assumes "distinct (map fst kvs)"
  shows "remove_undefined (delete_prop ''blockInfo'' (delete_prop ''dryRun''
           (delete_prop ''useTransaction'' (JObj kvs))))
         = JObj (filter (\<lambda>kv. fst kv \<notin> {''useTransaction'', ''dryRun'', ''blockInfo''}
                              \<and> snd kv \<noteq> JUndefined) kvs)"
proof -
  let ?kept = "filter (\<lambda>kv. fst kv \<noteq> ''blockInfo'') (filter (\<lambda>kv. fst kv \<noteq> ''dryRun'')
                 (filter (\<lambda>kv. fst kv \<noteq> ''useTransaction'') kvs))"
  have "distinct (map fst ?kept)"
    using assms by (intro distinct_map_filter)
  then have "remove_undefined (JObj ?kept) = JObj (filter (\<lambda>kv. snd kv \<noteq> JUndefined) ?kept)"
    by (rule remove_undefined_object)
  moreover have "filter (\<lambda>kv. snd kv \<noteq> JUndefined) ?kept
      = filter (\<lambda>kv. fst kv \<notin> {''useTransaction'', ''dryRun'', ''blockInfo''}
                      \<and> snd kv \<noteq> JUndefined) kvs"
    unfolding filter_filter by (rule filter_cong) auto
  ultimately show ?thesis by simp
qed

lemma prove_strip_object:
  assumes "distinct (map fst kvs)"
  shows "remove_undefined (delete_prop ''dryRun'' (delete_prop ''useTransaction'' (JObj kvs)))
         = JObj (filter (\<lambda>kv. fst kv \<notin> {''useTransaction'', ''dryRun''}
                              \<and> snd kv \<noteq> JUndefined) kvs)"
proof -
  let ?kept = "filter (\<lambda>kv. fst kv \<noteq> ''dryRun'')
                 (filter (\<lambda>kv. fst kv \<noteq> ''useTransaction'') kvs)"
  have "distinct (map fst ?kept)"
    using assms by (intro distinct_map_filter)
  then have "remove_undefined (JObj ?kept) = JObj (filter (\<lambda>kv. snd kv \<noteq> JUndefined) ?kept)"
    by (rule remove_undefined_object)
  moreover have "filter (\<lambda>kv. snd kv \<noteq> JUndefined) ?kept
      = filter (\<lambda>kv. fst kv \<notin> {''useTransaction'', ''dryRun''} \<and> snd kv \<noteq> JUndefined) kvs"
    unfolding filter_filter by (rule filter_cong) auto
  ultimately show ?thesis by simp
qed

text \<open>The query that \<open>find\<close> and \<open>prove\<close> hand to the store, for an options object.\<close>

lemma find_prepare_object:
  assumes "load h opts = JObj kvs"
    and "find_prepare h opts = (h', epochIndex, query, useTransaction)"
  shows "query = remove_undefined (delete_prop ''blockInfo'' (delete_prop ''dryRun''
                   (delete_prop ''useTransaction'' (JObj kvs))))"
proof (cases opts)
  case (Prim v)
  with assms show ?thesis
    by (auto simp: find_prepare_def)
next
  case (Ref a)
  with assms(1) have "a < length h" "h ! a = JObj kvs"
    by (auto split: if_splits)
  with Ref assms(2) show ?thesis
    by (auto simp: find_prepare_def)
qed

lemma prove_prepare_object:
  assumes "load h opts = JObj kvs"
    and "prove_prepare h opts = (h', query, useTransaction)"
  shows "query = remove_undefined (delete_prop ''dryRun''
                   (delete_prop ''useTransaction'' (JObj kvs)))"
proof (cases opts)
  case (Prim v)
  with assms show ?thesis
    by (auto simp: prove_prepare_def)
next
  case (Ref a)
  with assms(1) have "a < length h" "h ! a = JObj kvs"
    by (auto split: if_splits)
  with Ref assms(2) show ?thesis
    by (auto simp: prove_prepare_def)
qed

text \<open>
  C3, as amended. For every options object (a plain object, its keys distinct) passed to
  \<open>find\<close>, the query handed to the store is the options object without the keys
  \<open>useTransaction\<close>, \<open>dryRun\<close> and \<open>blockInfo\<close> and without the keys whose value is
  \<open>undefined\<close>; every other field is forwarded as it is, in its place. For \<open>prove\<close> the
  query is the options object without \<open>useTransaction\<close> and \<open>dryRun\<close> and without the
  keys whose value is \<open>undefined\<close>: a \<open>blockInfo\<close> field with a value is forwarded
  like any other field.
\<close>

theorem forwarded_query_is_stripped:
  assumes "load h opts = JObj kvs"
    and "distinct (map fst kvs)"
    and "find_prepare h opts = (h', epochIndex, query, useTransaction)"
    and "prove_prepare h opts = (hp', queryp, useTransactionp)"
  shows "query = JObj (filter (\<lambda>kv. fst kv \<notin> {''useTransaction'', ''dryRun'', ''blockInfo''}
                                   \<and> snd kv \<noteq> JUndefined) kvs)
       \<and> queryp = JObj (filter (\<lambda>kv. fst kv \<notin> {''useTransaction'', ''dryRun''}
                                   \<and> snd kv \<noteq> JUndefined) kvs)"
  using find_prepare_object [OF assms(1,3)] prove_prepare_object [OF assms(1,4)]
    find_strip_object [OF assms(2)] prove_strip_object [OF assms(2)]
  by simp

theorem forwarded_query_is_stripped_witness:
  "find_prepare
     [JObj [(''limit'', JNum 10), (''useTransaction'', JBool True), (''orderBy'', JUndefined),
            (''blockInfo'', JObj [(''epoch'', JNum 3)]), (''dryRun'', JBool False),
            (''startAt'', JBuf [1, 2])]] (Ref 0)
   = ([JObj [(''limit'', JNum 10), (''useTransaction'', JBool True), (''orderBy'', JUndefined),
            (''blockInfo'', JObj [(''epoch'', JNum 3)]), (''dryRun'', JBool False),
            (''startAt'', JBuf [1, 2])],
       JObj [(''limit'', JNum 10), (''startAt'', JBuf [1, 2])]],
      JNum 3, JObj [(''limit'', JNum 10), (''startAt'', JBuf [1, 2])], JBool True)
   \<and> prove_prepare
     [JObj [(''limit'', JNum 10), (''useTransaction'', JBool True), (''orderBy'', JUndefined),
            (''blockInfo'', JObj [(''epoch'', JNum 3)]), (''dryRun'', JBool False),
            (''startAt'', JBuf [1, 2])]] (Ref 0)
   = ([JObj [(''limit'', JNum 10), (''useTransaction'', JBool True), (''orderBy'', JUndefined),
            (''blockInfo'', JObj [(''epoch'', JNum 3)]), (''dryRun'', JBool False),
            (''startAt'', JBuf [1, 2])],
       JObj [(''limit'', JNum 10), (''blockInfo'', JObj [(''epoch'', JNum 3)]),
             (''startAt'', JBuf [1, 2])]],
      JObj [(''limit'', JNum 10), (''blockInfo'', JObj [(''epoch'', JNum 3)]),
            (''startAt'', JBuf [1, 2])], JBool True)"
proof -
  let ?kvs = "[(''limit'', JNum 10), (''useTransaction'', JBool True), (''orderBy'', JUndefined),
            (''blockInfo'', JObj [(''epoch'', JNum 3)]), (''dryRun'', JBool False),
            (''startAt'', JBuf [1, 2])]"
  obtain h' epochIndex query useTransaction
    where f: "find_prepare [JObj ?kvs] (Ref 0) = (h', epochIndex, query, useTransaction)"
    by (metis prod_cases4)
  obtain hp' queryp useTransactionp
    where p: "prove_prepare [JObj ?kvs] (Ref 0) = (hp', queryp, useTransactionp)"
    by (metis prod_cases3)
  have l: "load [JObj ?kvs] (Ref 0) = JObj ?kvs" by simp
  have d: "distinct (map fst ?kvs)" by simp
  from forwarded_query_is_stripped [OF l d f p]
  have q: "query = JObj [(''limit'', JNum 10), (''startAt'', JBuf [1, 2])]"
    and qp: "queryp = JObj [(''limit'', JNum 10), (''blockInfo'', JObj [(''epoch'', JNum 3)]),
            (''startAt'', JBuf [1, 2])]"
    by simp_all
  from f q have "find_prepare [JObj ?kvs] (Ref 0)
      = ([JObj ?kvs, query], JNum 3, query, JBool True)"
    by (simp add: find_prepare_def)
  moreover from p qp have "prove_prepare [JObj ?kvs] (Ref 0)
      = ([JObj ?kvs, queryp], queryp, JBool True)"
    by (simp add: prove_prepare_def)
  ultimately show ?thesis
    unfolding q qp by simp
qed

text \<open>
  C3 as stated fails for \<open>prove\<close>: the query that \<open>prove\<close> hands to the store for
  the options \<open>{ limit: 10, blockInfo: { epoch: 3 } }\<close> still has the \<open>blockInfo\<close>
  field.
\<close>

theorem prove_forwards_blockInfo_counterexample:
  "prove_prepare [JObj [(''limit'', JNum 10), (''blockInfo'', JObj [(''epoch'', JNum 3)])]] (Ref 0)
     = ([JObj [(''limit'', JNum 10), (''blockInfo'', JObj [(''epoch'', JNum 3)])],
         JObj [(''limit'', JNum 10), (''blockInfo'', JObj [(''epoch'', JNum 3)])]],
        JObj [(''limit'', JNum 10), (''blockInfo'', JObj [(''epoch'', JNum 3)])],
        JUndefined)
   \<and> ''blockInfo'' \<in> set (object_keys
        (fst (snd (prove_prepare
           [JObj [(''limit'', JNum 10), (''blockInfo'', JObj [(''epoch'', JNum 3)])]] (Ref 0)))))"
  by (simp add: prove_prepare_def remove_undefined_def)

section \<open>The caller's objects\<close>

lemma modify_fresh_cell:
  "modify f (h @ [c], Ref (length h)) = (h @ [f c], Ref (length h))"
  by simp

lemma modify_prim: "modify f (h, Prim v) = (h, Prim (f v))"
  by simp

lemma find_prepare_heap: "\<exists>cells. fst (find_prepare h opts) = h @ cells"
proof (cases opts)
  case (Ref a)
  show ?thesis
    unfolding Ref find_prepare_def default_empty_object.simps lodashCloneDeep.simps
      Let_def prod.case modify_fresh_cell
    by (simp del: load.simps modify.simps add: modify_fresh_cell)
next
  case (Prim v)
  show ?thesis
  proof (cases "v = JUndefined")
    case True
    have "modify f (h @ [JObj [], JObj []], Ref (Suc (length h)))
            = (h @ [JObj [], f (JObj [])], Ref (Suc (length h)))" for f
      using modify_fresh_cell [of f "h @ [JObj []]" "JObj []"] by simp
    then show ?thesis
      unfolding Prim True find_prepare_def by (simp del: modify.simps)
  next
    case False
    then have "default_empty_object h (Prim v) = (h, Prim v)"
      by (cases v) simp_all
    then show ?thesis
      unfolding Prim find_prepare_def by (simp del: load.simps)
  qed
qed

lemma prove_prepare_heap: "\<exists>cells. fst (prove_prepare h opts) = h @ cells"
proof (cases opts)
  case (Ref a)
  show ?thesis
    unfolding Ref prove_prepare_def default_empty_object.simps lodashCloneDeep.simps
      Let_def prod.case modify_fresh_cell
    by (simp del: load.simps modify.simps add: modify_fresh_cell)
next
  case (Prim v)
  show ?thesis
  proof (cases "v = JUndefined")
    case True
    have "modify f (h @ [JObj [], JObj []], Ref (Suc (length h)))
            = (h @ [JObj [], f (JObj [])], Ref (Suc (length h)))" for f
      using modify_fresh_cell [of f "h @ [JObj []]" "JObj []"] by simp
    then show ?thesis
      unfolding Prim True prove_prepare_def by (simp del: modify.simps)
  next
    case False
    then have "default_empty_object h (Prim v) = (h, Prim v)"
      by (cases v) simp_all
    then show ?thesis
      unfolding Prim prove_prepare_def by (simp del: load.simps)
  qed
qed

lemma find_documents_heap: "snd (find_documents queryDocuments h dc dt opts) = fst (find_prepare h opts)"
  by (simp add: find_documents_def split_beta)

lemma prove_heap: "snd (prove proveDocumentsQuery h dc dt opts) = fst (prove_prepare h opts)"
  by (simp add: prove_def split_beta)

text \<open>
  C10. After a call of \<open>find\<close> or of \<open>prove\<close>, whatever the store answers, every object
  that existed before the call is what it was, the options object that the caller passed
  among them: the control parameters and the undefined fields are deleted from the clone
  that \<open>lodashCloneDeep\<close> made in a fresh cell, never from the caller's object.
\<close>

theorem caller_options_unchanged:
  "take (length h) (snd (find_documents queryDocuments h dc dt opts)) = h
   \<and> take (length h) (snd (prove proveDocumentsQuery h dcp dtp opts)) = h
   \<and> (\<forall>a < length h.
         load (snd (find_documents queryDocuments h dc dt opts)) (Ref a) = load h (Ref a)
       \<and> load (snd (prove proveDocumentsQuery h dcp dtp opts)) (Ref a) = load h (Ref a))"
proof -
  obtain cf where f: "snd (find_documents queryDocuments h dc dt opts) = h @ cf"
    using find_prepare_heap [of h opts] by (auto simp: find_documents_heap)
  obtain cp where p: "snd (prove proveDocumentsQuery h dcp dtp opts) = h @ cp"
    using prove_prepare_heap [of h opts] by (auto simp: prove_heap)
  show ?thesis
    unfolding f p by (simp add: nth_append)
qed

theorem caller_options_unchanged_witness:
  "load (snd (find_documents
          (\<lambda>(dc::unit) dt epochIndex query useTransaction. Inr (query, 0) :: error + jsval \<times> int)
          [JObj [(''useTransaction'', JBool True), (''limit'', JUndefined), (''where'', JArr [])]]
          () ''note'' (Ref 0))) (Ref 0)
     = JObj [(''useTransaction'', JBool True), (''limit'', JUndefined), (''where'', JArr [])]
   \<and> fst (find_documents
          (\<lambda>(dc::unit) dt epochIndex query useTransaction. Inr (query, 0) :: error + jsval \<times> int)
          [JObj [(''useTransaction'', JBool True), (''limit'', JUndefined), (''where'', JArr [])]]
          () ''note'' (Ref 0))
     = Inr \<lparr>resultValue = JObj [(''where'', JArr [])],
            operations = [PreCalculatedOperation 0 0 []]\<rparr>"
proof -
  let ?h = "[JObj [(''useTransaction'', JBool True), (''limit'', JUndefined), (''where'', JArr [])]]"
  let ?s = "\<lambda>(dc::unit) (dt::string) (ep::jsval) (query::jsval) (u::jsval).
              Inr (query, 0) :: error + jsval \<times> int"
  let ?p = "\<lambda>(dc::unit) (dt::string) (query::jsval) (u::jsval).
              Inr (query, 0) :: error + jsval \<times> int"
  have "load (snd (find_documents ?s ?h () ''note'' (Ref 0))) (Ref 0) = load ?h (Ref 0)"
    using caller_options_unchanged [of ?h ?s "()" "''note''" "Ref 0" ?p "()" "''note''"]
    by (simp del: load.simps)
  moreover have "fst (find_documents ?s ?h () ''note'' (Ref 0))
     = Inr \<lparr>resultValue = JObj [(''where'', JArr [])],
            operations = [PreCalculatedOperation 0 0 []]\<rparr>"
    by (simp add: find_documents_def find_prepare_def remove_undefined_def)
  ultimately show ?thesis by simp
qed

section \<open>The log entry of create, update and delete\<close>

lemma member_not_null:
  "options \<noteq> JNull \<Longrightarrow>
     member (default_options options) name = Inr (get_prop (default_options options) name)"
  by (simp add: member_def default_options_def)

lemma create_outcome:
  assumes "options \<noteq> JNull"
    and "createDocument document blockInfo
           (truthy (get_prop (default_options options) ''useTransaction''))
           (truthy (get_prop (default_options options) ''dryRun'')) s = (r, s')"
  shows "create createDocument getRootHash toBuffer sha256 (s, logger) document blockInfo options =
     (case logger of
        None \<Rightarrow> (map_sum id fee_storage_result r, s', None)
      | Some entries \<Rightarrow>
          (case getRootHash (default_options options) s' of
             Inl e \<Rightarrow> (Inl e, s', Some entries)
           | Inr appHash \<Rightarrow>
               (map_sum id fee_storage_result r, s',
                Some (entries @
                  [(JObj [(''document'', JStr (hex (toBuffer document))),
                          (''documentHash'', JStr (sha256 (toBuffer document))),
                          (''useTransaction'',
                             JBool (truthy (get_prop (default_options options) ''useTransaction''))),
                          (''dryRun'', JBool (truthy (get_prop (default_options options) ''dryRun''))),
                          (''appHash'', JStr (hex appHash))],
                    ''createDocument'')]))))"
  using assms(2)
  by (simp add: create_def Let_def member_not_null [OF assms(1)] after_finally_def
      split: option.split sum.split)

lemma update_outcome:
  assumes "options \<noteq> JNull"
    and "updateDocument document blockInfo
           (truthy (get_prop (default_options options) ''useTransaction''))
           (truthy (get_prop (default_options options) ''dryRun'')) s = (r, s')"
  shows "update updateDocument getRootHash toBuffer sha256 (s, logger) document blockInfo options =
     (case logger of
        None \<Rightarrow> (map_sum id fee_storage_result r, s', None)
      | Some entries \<Rightarrow>
          (case getRootHash (default_options options) s' of
             Inl e \<Rightarrow> (Inl e, s', Some entries)
           | Inr appHash \<Rightarrow>
               (map_sum id fee_storage_result r, s',
                Some (entries @
                  [(JObj [(''document'', JStr (hex (toBuffer document))),
                          (''documentHash'', JStr (sha256 (toBuffer document))),
                          (''useTransaction'',
                             JBool (truthy (get_prop (default_options options) ''useTransaction''))),
                          (''dryRun'', JBool (truthy (get_prop (default_options options) ''dryRun''))),
                          (''appHash'', JStr (hex appHash))],
                    ''updateDocument'')]))))"
  using assms(2)
  by (simp add: update_def Let_def member_not_null [OF assms(1)] after_finally_def
      split: option.split sum.split)

lemma delete_outcome:
  assumes "options \<noteq> JNull"
    and "deleteDocument (getId dataContract) documentType ident blockInfo
           (truthy (get_prop (default_options options) ''useTransaction''))
           (truthy (get_prop (default_options options) ''dryRun'')) s = (r, s')"
  shows "delete deleteDocument getRootHash getId idToString (s, logger) dataContract documentType
           ident blockInfo options =
     (case logger of
        None \<Rightarrow> (map_sum id fee_storage_result r, s', None)
      | Some entries \<Rightarrow>
          (case getRootHash (default_options options) s' of
             Inl e \<Rightarrow> (Inl e, s', Some entries)
           | Inr appHash \<Rightarrow>
               (map_sum id fee_storage_result r, s',
                Some (entries @
                  [(JObj [(''dataContractId'', JStr (idToString (getId dataContract))),
                          (''documentType'', JStr documentType),
                          (''id'', JStr (idToString ident)),
                          (''useTransaction'',
                             JBool (truthy (get_prop (default_options options) ''useTransaction''))),
                          (''appHash'', JStr (hex appHash))],
                    ''deleteDocument'')]))))"
  using assms(2)
  by (simp add: delete_def Let_def member_not_null [OF assms(1)] after_finally_def
      split: option.split sum.split)

text \<open>
  C5, as amended. For every invocation of \<open>create\<close>, \<open>update\<close> or \<open>delete\<close> with options
  other than \<open>null\<close>, let the store operation end with the outcome \<open>r\<close> (a fee signal or
  an exception) in the state \<open>s'\<close>. Without a logger nothing is logged and the caller
  observes \<open>r\<close> (as a StorageResult, or the exception). With a logger, the \<open>finally\<close>
  block runs whether the store operation returned or threw: when the post-operation
  \<open>getRootHash\<close> call succeeds, one entry carrying that root hash is appended to the log
  and the caller observes \<open>r\<close>; when \<open>getRootHash\<close> throws \<open>e\<close>, no entry is logged and
  the caller observes \<open>e\<close> in place of \<open>r\<close>.
\<close>

theorem log_entry_and_outcome:
  assumes "options \<noteq> JNull"
    and "createDocument document blockInfo
           (truthy (get_prop (default_options options) ''useTransaction''))
           (truthy (get_prop (default_options options) ''dryRun'')) s = (rc, sc)"
    and "updateDocument document blockInfo
           (truthy (get_prop (default_options options) ''useTransaction''))
           (truthy (get_prop (default_options options) ''dryRun'')) s = (ru, su)"
    and "deleteDocument (getId dataContract) documentType ident blockInfo
           (truthy (get_prop (default_options options) ''useTransaction''))
           (truthy (get_prop (default_options options) ''dryRun'')) s = (rd, sd)"
  shows "(create createDocument getRootHash toBuffer sha256 (s, None) document blockInfo options = (map_sum id fee_storage_result rc, sc, None)
     \<and> (\<forall>entries appHash. getRootHash (default_options options) sc = Inr appHash \<longrightarrow>
          (\<exists>fields. create createDocument getRootHash toBuffer sha256 (s, Some entries) document blockInfo options
               = (map_sum id fee_storage_result rc, sc, Some (entries @ [(fields, ''createDocument'')]))
             \<and> get_prop fields ''appHash'' = JStr (hex appHash)))
     \<and> (\<forall>entries e. getRootHash (default_options options) sc = Inl e \<longrightarrow>
          create createDocument getRootHash toBuffer sha256 (s, Some entries) document blockInfo options = (Inl e, sc, Some entries)))
   \<and> (update updateDocument getRootHash toBuffer sha256 (s, None) document blockInfo options = (map_sum id fee_storage_result ru, su, None)
     \<and> (\<forall>entries appHash. getRootHash (default_options options) su = Inr appHash \<longrightarrow>
          (\<exists>fields. update updateDocument getRootHash toBuffer sha256 (s, Some entries) document blockInfo options
               = (map_sum id fee_storage_result ru, su, Some (entries @ [(fields, ''updateDocument'')]))
             \<and> get_prop fields ''appHash'' = JStr (hex appHash)))
     \<and> (\<forall>entries e. getRootHash (default_options options) su = Inl e \<longrightarrow>
          update updateDocument getRootHash toBuffer sha256 (s, Some entries) document blockInfo options = (Inl e, su, Some entries)))
   \<and> (delete deleteDocument getRootHash getId idToString (s, None) dataContract documentType ident blockInfo options = (map_sum id fee_storage_result rd, sd, None)
     \<and> (\<forall>entries appHash. getRootHash (default_options options) sd = Inr appHash \<longrightarrow>
          (\<exists>fields. delete deleteDocument getRootHash getId idToString (s, Some entries) dataContract documentType ident blockInfo options
               = (map_sum id fee_storage_result rd, sd, Some (entries @ [(fields, ''deleteDocument'')]))
             \<and> get_prop fields ''appHash'' = JStr (hex appHash)))
     \<and> (\<forall>entries e. getRootHash (default_options options) sd = Inl e \<longrightarrow>
          delete deleteDocument getRootHash getId idToString (s, Some entries) dataContract documentType ident blockInfo options = (Inl e, sd, Some entries)))"
proof (intro conjI allI impI)
  have c: "create createDocument getRootHash toBuffer sha256 (s, logger) document blockInfo
              options =
     (case logger of
        None \<Rightarrow> (map_sum id fee_storage_result rc, sc, None)
      | Some entries \<Rightarrow>
          (case getRootHash (default_options options) sc of
             Inl e \<Rightarrow> (Inl e, sc, Some entries)
           | Inr appHash \<Rightarrow>
               (map_sum id fee_storage_result rc, sc,
                Some (entries @
                  [(JObj [(''document'', JStr (hex (toBuffer document))),
                          (''documentHash'', JStr (sha256 (toBuffer document))),
                          (''useTransaction'',
                             JBool (truthy (get_prop (default_options options) ''useTransaction''))),
                          (''dryRun'', JBool (truthy (get_prop (default_options options) ''dryRun''))),
                          (''appHash'', JStr (hex appHash))],
                    ''createDocument'')]))))" for logger
    using assms(1,2) by (rule create_outcome)
  have u: "update updateDocument getRootHash toBuffer sha256 (s, logger) document blockInfo
              options =
     (case logger of
        None \<Rightarrow> (map_sum id fee_storage_result ru, su, None)
      | Some entries \<Rightarrow>
          (case getRootHash (default_options options) su of
             Inl e \<Rightarrow> (Inl e, su, Some entries)
           | Inr appHash \<Rightarrow>
               (map_sum id fee_storage_result ru, su,
                Some (entries @
                  [(JObj [(''document'', JStr (hex (toBuffer document))),
                          (''documentHash'', JStr (sha256 (toBuffer document))),
                          (''useTransaction'',
                             JBool (truthy (get_prop (default_options options) ''useTransaction''))),
                          (''dryRun'', JBool (truthy (get_prop (default_options options) ''dryRun''))),
                          (''appHash'', JStr (hex appHash))],
                    ''updateDocument'')]))))" for logger
    using assms(1,3) by (rule update_outcome)
  have d: "delete deleteDocument getRootHash getId idToString (s, logger) dataContract
              documentType ident blockInfo options =
     (case logger of
        None \<Rightarrow> (map_sum id fee_storage_result rd, sd, None)
      | Some entries \<Rightarrow>
          (case getRootHash (default_options options) sd of
             Inl e \<Rightarrow> (Inl e, sd, Some entries)
           | Inr appHash \<Rightarrow>
               (map_sum id fee_storage_result rd, sd,
                Some (entries @
                  [(JObj [(''dataContractId'', JStr (idToString (getId dataContract))),
                          (''documentType'', JStr documentType),
                          (''id'', JStr (idToString ident)),
                          (''useTransaction'',
                             JBool (truthy (get_prop (default_options options) ''useTransaction''))),
                          (''appHash'', JStr (hex appHash))],
                    ''deleteDocument'')]))))" for logger
    using assms(1,4)
    by (rule delete_outcome [where deleteDocument = deleteDocument and getId = getId
          and dataContract = dataContract and documentType = documentType and ident = ident
          and blockInfo = blockInfo and options = options and s = s and r = rd and s' = sd])
  show "create createDocument getRootHash toBuffer sha256 (s, None) document blockInfo options
          = (map_sum id fee_storage_result rc, sc, None)"
    by (simp add: c)
  show "update updateDocument getRootHash toBuffer sha256 (s, None) document blockInfo options
          = (map_sum id fee_storage_result ru, su, None)"
    by (simp add: u)
  show "delete deleteDocument getRootHash getId idToString (s, None) dataContract documentType
          ident blockInfo options = (map_sum id fee_storage_result rd, sd, None)"
    by (simp add: d)
  show "\<exists>fields. create createDocument getRootHash toBuffer sha256 (s, Some entries) document
            blockInfo options
          = (map_sum id fee_storage_result rc, sc, Some (entries @ [(fields, ''createDocument'')]))
        \<and> get_prop fields ''appHash'' = JStr (hex appHash)"
    if "getRootHash (default_options options) sc = Inr appHash" for entries appHash
    using that by (simp add: c)
  show "\<exists>fields. update updateDocument getRootHash toBuffer sha256 (s, Some entries) document
            blockInfo options
          = (map_sum id fee_storage_result ru, su, Some (entries @ [(fields, ''updateDocument'')]))
        \<and> get_prop fields ''appHash'' = JStr (hex appHash)"
    if "getRootHash (default_options options) su = Inr appHash" for entries appHash
    using that by (simp add: u)
  show "\<exists>fields. delete deleteDocument getRootHash getId idToString (s, Some entries)
            dataContract documentType ident blockInfo options
          = (map_sum id fee_storage_result rd, sd, Some (entries @ [(fields, ''deleteDocument'')]))
        \<and> get_prop fields ''appHash'' = JStr (hex appHash)"
    if "getRootHash (default_options options) sd = Inr appHash" for entries appHash
    using that by (simp add: d)
  show "create createDocument getRootHash toBuffer sha256 (s, Some entries) document blockInfo
          options = (Inl e, sc, Some entries)"
    if "getRootHash (default_options options) sc = Inl e" for entries e
    using that by (simp add: c)
  show "update updateDocument getRootHash toBuffer sha256 (s, Some entries) document blockInfo
          options = (Inl e, su, Some entries)"
    if "getRootHash (default_options options) su = Inl e" for entries e
    using that by (simp add: u)
  show "delete deleteDocument getRootHash getId idToString (s, Some entries) dataContract
          documentType ident blockInfo options = (Inl e, sd, Some entries)"
    if "getRootHash (default_options options) sd = Inl e" for entries e
    using that by (simp add: d)
qed

text \<open>
  C5 as stated fails: with a logger, a \<open>getRootHash\<close> that throws hides both the
  exception of \<open>createDocument\<close> and its fee signal from the caller, and nothing is logged.
\<close>

theorem root_hash_failure_masks_outcome_counterexample:
  "create (\<lambda>(document::unit) (blockInfo::unit) useTransaction dryRun (s::nat).
             (Inl (BackendError ''document already exists'' JNull), s))
          (\<lambda>options s. Inl (BackendError ''root hash unavailable'' JNull))
          (\<lambda>document. [1, 2]) (\<lambda>b. ''digest'') (0, Some []) () () (JObj [])
     = (Inl (BackendError ''root hash unavailable'' JNull), 0, Some [])
   \<and> create (\<lambda>(document::unit) (blockInfo::unit) useTransaction dryRun (s::nat).
             (Inr \<lparr>storageFee = 5, processingFee = 7, feeRefunds = []\<rparr>, Suc s))
          (\<lambda>options s. Inl (BackendError ''root hash unavailable'' JNull))
          (\<lambda>document. [1, 2]) (\<lambda>b. ''digest'') (0, Some []) () () (JObj [])
     = (Inl (BackendError ''root hash unavailable'' JNull), 1, Some [])"
  by (simp add: create_def default_options_def member_def after_finally_def)

theorem log_entry_and_outcome_witness:
  "(\<exists>fields.
      create (\<lambda>(document::unit) (blockInfo::unit) useTransaction dryRun (s::nat).
                (Inl (BackendError ''document already exists'' JNull), Suc s))
             (\<lambda>options s. Inr [171, 205])
             (\<lambda>document. [1, 2]) (\<lambda>b. ''digest'') (0, Some []) () ()
             (JObj [(''useTransaction'', JBool True)])
        = (Inl (BackendError ''document already exists'' JNull), 1,
           Some [(fields, ''createDocument'')])
      \<and> get_prop fields ''appHash'' = JStr ''abcd'')
   \<and> create (\<lambda>(document::unit) (blockInfo::unit) useTransaction dryRun (s::nat).
                (Inl (BackendError ''document already exists'' JNull), Suc s))
             (\<lambda>options s. Inl (BackendError ''root hash unavailable'' JNull))
             (\<lambda>document. [1, 2]) (\<lambda>b. ''digest'') (0, Some []) () ()
             (JObj [(''useTransaction'', JBool True)])
        = (Inl (BackendError ''root hash unavailable'' JNull), 1, Some [])"
proof -
  define op where "op = (\<lambda>(document::unit) (blockInfo::unit) (useTransaction::bool)
      (dryRun::bool) (s::nat).
        (Inl (BackendError ''document already exists'' JNull) :: error + feeResult, Suc s))"
  define del where "del = (\<lambda>(i::unit) (documentType::string) (ident::unit) (blockInfo::unit)
      (useTransaction::bool) (dryRun::bool) (s::nat).
        (Inl (BackendError ''document already exists'' JNull) :: error + feeResult, Suc s))"
  define ok where "ok = (\<lambda>(options::jsval) (s::nat). Inr [171, 205] :: error + buffer)"
  define bad where "bad = (\<lambda>(options::jsval) (s::nat).
      Inl (BackendError ''root hash unavailable'' JNull) :: error + buffer)"
  define toBuffer where "toBuffer = (\<lambda>document::unit. [1, 2] :: buffer)"
  define sha where "sha = (\<lambda>b::buffer. ''digest'')"
  define getId where "getId = (\<lambda>dc::unit. ())"
  define idToString where "idToString = (\<lambda>i::unit. ''id'')"
  let ?options = "JObj [(''useTransaction'', JBool True)]"
  have h: "hex [171, 205] = ''abcd''"
    by (simp add: hex_def hex_digit_def)
  have n: "?options \<noteq> JNull" by simp
  have c: "op () () (truthy (get_prop (default_options ?options) ''useTransaction''))
             (truthy (get_prop (default_options ?options) ''dryRun'')) 0
           = (Inl (BackendError ''document already exists'' JNull), 1)"
    by (simp add: op_def)
  have d: "del (getId ()) ''note'' () ()
             (truthy (get_prop (default_options ?options) ''useTransaction''))
             (truthy (get_prop (default_options ?options) ''dryRun'')) 0
           = (Inl (BackendError ''document already exists'' JNull), 1)"
    by (simp add: del_def)
  have r: "ok (default_options ?options) 1 = Inr [171, 205]"
    and r': "bad (default_options ?options) 1 = Inl (BackendError ''root hash unavailable'' JNull)"
    by (simp_all add: ok_def bad_def)
  from log_entry_and_outcome [where getRootHash = ok and toBuffer = toBuffer
      and ?sha256.0 = sha and idToString = idToString and createDocument = op
      and updateDocument = op and deleteDocument = del and getId = getId, OF n c c d,
      THEN conjunct1, THEN conjunct2, THEN conjunct1, rule_format, OF r, of "[]"]
  have a: "\<exists>fields. create op ok toBuffer sha (0, Some []) () () ?options
        = (Inl (BackendError ''document already exists'' JNull), 1,
           Some [(fields, ''createDocument'')])
      \<and> get_prop fields ''appHash'' = JStr ''abcd''"
    unfolding h by simp
  from log_entry_and_outcome [where getRootHash = bad and toBuffer = toBuffer
      and ?sha256.0 = sha and idToString = idToString and createDocument = op
      and updateDocument = op and deleteDocument = del and getId = getId, OF n c c d,
      THEN conjunct1, THEN conjunct2, THEN conjunct2, rule_format, OF r', of "[]"]
  have b: "create op bad toBuffer sha (0, Some []) () () ?options
        = (Inl (BackendError ''root hash unavailable'' JNull), 1, Some [])"
    by simp
  from a b show ?thesis
    unfolding op_def ok_def bad_def toBuffer_def sha_def by blast
qed

section \<open>Both pagination cursors\<close>

lemma map_of_filter_kept:
  "map_of kvs k = Some v \<Longrightarrow> P (k, v) \<Longrightarrow> map_of (filter P kvs) k = Some v"
  by (induction kvs) (auto split: if_splits)

lemma get_prop_filter_kept:
  assumes "get_prop (JObj kvs) k \<noteq> JUndefined"
    and "P (k, get_prop (JObj kvs) k)"
  shows "get_prop (JObj (filter P kvs)) k = get_prop (JObj kvs) k"
proof (cases "map_of kvs k")
  case None
  with assms(1) show ?thesis by simp
next
  case (Some v)
  with assms(2) have "map_of (filter P kvs) k = Some v"
    by (simp add: map_of_filter_kept)
  with Some show ?thesis by simp
qed

lemma find_catch_keeps_InvalidQueryError:
  "\<exists>m. find_catch (InvalidQueryError reason) = InvalidQueryError m"
  by (simp add: find_catch_def)

text \<open>
  C4. Against a store whose query translation rejects, with \<open>InvalidQueryError\<close>, a query
  that sets both \<open>startAt\<close> and \<open>startAfter\<close>: for every options object in which both
  have a value, whatever its other fields, \<open>find\<close> throws an \<open>InvalidQueryError\<close>. Both
  cursors pass the stripping of \<open>find\<close>, and its \<open>catch\<close> block leaves the class of the
  error as it is.
\<close>

theorem find_rejects_both_cursors:
  assumes "load h opts = JObj kvs"
    and "distinct (map fst kvs)"
    and "get_prop (JObj kvs) ''startAt'' \<noteq> JUndefined"
    and "get_prop (JObj kvs) ''startAfter'' \<noteq> JUndefined"
  shows "\<exists>m. fst (find_documents (queryDocuments_translated reason backend) h dc dt opts)
           = Inl (InvalidQueryError m)"
proof -
  let ?P = "\<lambda>kv. fst kv \<notin> {''useTransaction'', ''dryRun'', ''blockInfo''} \<and> snd kv \<noteq> JUndefined"
  obtain h' epochIndex query useTransaction
    where p: "find_prepare h opts = (h', epochIndex, query, useTransaction)"
    by (metis prod_cases4)
  have q: "query = JObj (filter ?P kvs)"
    using find_prepare_object [OF assms(1) p] find_strip_object [OF assms(2)] by simp
  have "get_prop query ''startAt'' = get_prop (JObj kvs) ''startAt''"
    unfolding q using assms(3) by (intro get_prop_filter_kept) simp_all
  moreover have "get_prop query ''startAfter'' = get_prop (JObj kvs) ''startAfter''"
    unfolding q using assms(4) by (intro get_prop_filter_kept) simp_all
  ultimately have "queryDocuments_translated reason backend dc dt epochIndex query useTransaction
      = Inl (InvalidQueryError reason)"
    using assms(3,4) by (simp add: queryDocuments_translated_def)
  with p have "fst (find_documents (queryDocuments_translated reason backend) h dc dt opts)
      = Inl (find_catch (InvalidQueryError reason))"
    by (rule find_fails)
  with find_catch_keeps_InvalidQueryError [of reason] show ?thesis by auto
qed

theorem find_rejects_both_cursors_witness:
  "fst (find_documents
          (queryDocuments_translated ''query: duplicate start conditions''
             (\<lambda>(dc::unit) dt epochIndex query useTransaction.
                 Inr ([], 0) :: error + nat list \<times> int))
          [JObj [(''limit'', JNum 1), (''startAt'', JBuf [1]), (''startAfter'', JBuf [2])]]
          () ''note'' (Ref 0))
     = Inl (InvalidQueryError ''duplicate start conditions'')"
proof -
  let ?kvs = "[(''limit'', JNum 1), (''startAt'', JBuf [1]), (''startAfter'', JBuf [2])]"
  define backend where "backend = (\<lambda>(dc::unit) (dt::string) (epochIndex::jsval) (query::jsval)
      (useTransaction::jsval). Inr ([], 0) :: error + nat list \<times> int)"
  have l: "load [JObj ?kvs] (Ref 0) = JObj ?kvs" by simp
  have d: "distinct (map fst ?kvs)" by simp
  have a: "get_prop (JObj ?kvs) ''startAt'' \<noteq> JUndefined"
    and b: "get_prop (JObj ?kvs) ''startAfter'' \<noteq> JUndefined"
    by simp_all
  obtain m where m: "fst (find_documents
        (queryDocuments_translated ''query: duplicate start conditions'' backend)
        [JObj ?kvs] () ''note'' (Ref 0)) = Inl (InvalidQueryError m)"
    using find_rejects_both_cursors [OF l d a b,
        of "''query: duplicate start conditions''" backend "()" "''note''"]
    by blast
  have p: "find_prepare [JObj ?kvs] (Ref 0)
      = ([JObj ?kvs, JObj [(''limit'', JNum 1), (''startAt'', JBuf [1]), (''startAfter'', JBuf [2])]],
         JUndefined,
         JObj [(''limit'', JNum 1), (''startAt'', JBuf [1]), (''startAfter'', JBuf [2])],
         JUndefined)"
    by (simp add: find_prepare_def remove_undefined_def)
  have "fst (find_documents
        (queryDocuments_translated ''query: duplicate start conditions'' backend)
        [JObj ?kvs] () ''note'' (Ref 0))
      = Inl (find_catch (InvalidQueryError ''query: duplicate start conditions''))"
    by (rule find_fails [OF p]) (simp add: queryDocuments_translated_def)
  also have "find_catch (InvalidQueryError ''query: duplicate start conditions'')
      = InvalidQueryError ''duplicate start conditions''"
    by (rule find_catch_query) simp
  finally have "m = ''duplicate start conditions''"
    using m by simp
  with m show ?thesis
    unfolding backend_def by simp
qed

section \<open>The reply of the transport\<close>

lemma request_options_default:
  "request_options cbor_encode path JUndefined JUndefined
     = JObj [(''path'', JStr path), (''data'', JStr (hex (cbor_encode (JObj [])))),
             (''prove'', JBool False)]"
  by (simp add: request_options_def default_options_def)

lemma request_options_given:
  assumes "dataArg \<noteq> JUndefined" "proveArg \<noteq> JUndefined"
  shows "request_options cbor_encode path dataArg proveArg
     = JObj [(''path'', JStr path), (''data'', JStr (hex (cbor_encode dataArg))),
             (''prove'', proveArg)]"
  using assms by (simp add: request_options_def default_options_def)

lemma request_reply:
  assumes "client_request ''abci_query'' (request_options cbor_encode path dataArg proveArg)
             = Inr reply"
  shows "request cbor_encode base64_decode bufferFromObject createGrpcErrorFromDriveResponse
           client_request path dataArg proveArg
         = handle_reply base64_decode bufferFromObject createGrpcErrorFromDriveResponse reply"
  using assms by (simp add: request_def)

lemma handle_reply_error:
  assumes "truthy (get_prop (JObj envelope) ''error'')"
  shows "handle_reply base64_decode bufferFromObject createGrpcErrorFromDriveResponse
           (JObj envelope)
         = Inl (RPCError
             (js_or (get_prop (get_prop (JObj envelope) ''error'') ''code'') (JNum (- 32602)))
             (js_or (get_prop (get_prop (JObj envelope) ''error'') ''message'')
                (JStr ''Internal error''))
             (get_prop (get_prop (JObj envelope) ''error'') ''data''))"
  using assms by (simp add: handle_reply_def request_member_def Let_def)

lemma handle_reply_response:
  assumes "\<not> truthy (get_prop (JObj envelope) ''error'')"
    and "get_prop (JObj envelope) ''result'' = JObj result"
    and "get_prop (JObj result) ''response'' = JObj response"
  shows "handle_reply base64_decode bufferFromObject createGrpcErrorFromDriveResponse
           (JObj envelope)
         = (if get_prop (JObj response) ''code'' = JUndefined
               \<or> get_prop (JObj response) ''code'' = JNum 0
            then buffer_from_base64 base64_decode bufferFromObject
                   (get_prop (JObj response) ''value'')
            else Inl (DriveResponseError
                   (createGrpcErrorFromDriveResponse (get_prop (JObj response) ''code'')
                      (get_prop (JObj response) ''info''))))"
  using assms by (simp add: handle_reply_def request_member_def Let_def del: get_prop.simps)

text \<open>
  C7, as amended. For every reply envelope (an object) that the transport answers with:
  if its \<open>error\<close> is truthy, \<open>request\<close> throws \<open>RPCError\<close> with the code, the message
  and the data of the error, where a code that is absent or falsy (\<open>0\<close>, \<open>null\<close>, the empty
  string) is replaced by \<open>-32602\<close> and a message that is absent or falsy (the empty
  string) by \<open>Internal error\<close>. Otherwise, for a \<open>result\<close> with a \<open>response\<close> object:
  if the code of the response is \<open>0\<close> or absent and its value is a string, \<open>request\<close>
  returns the base64 decoding of the value; if the code is anything else, \<open>request\<close>
  throws the error that \<open>createGrpcErrorFromDriveResponse\<close> makes of the code and the
  \<open>info\<close> of the response.
\<close>

theorem request_handles_reply:
  assumes "client_request ''abci_query'' (request_options cbor_encode path dataArg proveArg)
             = Inr (JObj envelope)"
  shows "(truthy (get_prop (JObj envelope) ''error'') \<longrightarrow>
            request cbor_encode base64_decode bufferFromObject createGrpcErrorFromDriveResponse
              client_request path dataArg proveArg
            = Inl (RPCError
                (js_or (get_prop (get_prop (JObj envelope) ''error'') ''code'') (JNum (- 32602)))
                (js_or (get_prop (get_prop (JObj envelope) ''error'') ''message'')
                   (JStr ''Internal error''))
                (get_prop (get_prop (JObj envelope) ''error'') ''data'')))
       \<and> (\<not> truthy (get_prop (JObj envelope) ''error'') \<longrightarrow>
            (\<forall>result response.
               get_prop (JObj envelope) ''result'' = JObj result
               \<and> get_prop (JObj result) ''response'' = JObj response \<longrightarrow>
               (\<forall>s. (get_prop (JObj response) ''code'' = JUndefined
                      \<or> get_prop (JObj response) ''code'' = JNum 0)
                    \<and> get_prop (JObj response) ''value'' = JStr s \<longrightarrow>
                    request cbor_encode base64_decode bufferFromObject
                      createGrpcErrorFromDriveResponse client_request path dataArg proveArg
                    = Inr (base64_decode s))
             \<and> (get_prop (JObj response) ''code'' \<noteq> JUndefined
                  \<and> get_prop (JObj response) ''code'' \<noteq> JNum 0 \<longrightarrow>
                  request cbor_encode base64_decode bufferFromObject
                    createGrpcErrorFromDriveResponse client_request path dataArg proveArg
                  = Inl (DriveResponseError
                      (createGrpcErrorFromDriveResponse (get_prop (JObj response) ''code'')
                         (get_prop (JObj response) ''info''))))))"
proof -
  have r: "request cbor_encode base64_decode bufferFromObject createGrpcErrorFromDriveResponse
             client_request path dataArg proveArg
           = handle_reply base64_decode bufferFromObject createGrpcErrorFromDriveResponse
               (JObj envelope)"
    using assms by (simp add: request_def)
  show ?thesis
  proof (intro conjI impI allI)
    assume "truthy (get_prop (JObj envelope) ''error'')"
    then show "request cbor_encode base64_decode bufferFromObject
        createGrpcErrorFromDriveResponse client_request path dataArg proveArg
      = Inl (RPCError
          (js_or (get_prop (get_prop (JObj envelope) ''error'') ''code'') (JNum (- 32602)))
          (js_or (get_prop (get_prop (JObj envelope) ''error'') ''message'')
             (JStr ''Internal error''))
          (get_prop (get_prop (JObj envelope) ''error'') ''data''))"
      unfolding r by (rule handle_reply_error)
  next
    fix result response s
    assume e: "\<not> truthy (get_prop (JObj envelope) ''error'')"
      and o: "get_prop (JObj envelope) ''result'' = JObj result
              \<and> get_prop (JObj result) ''response'' = JObj response"
      and c: "(get_prop (JObj response) ''code'' = JUndefined
               \<or> get_prop (JObj response) ''code'' = JNum 0)
              \<and> get_prop (JObj response) ''value'' = JStr s"
    from o have o1: "get_prop (JObj envelope) ''result'' = JObj result"
      and o2: "get_prop (JObj result) ''response'' = JObj response"
      by blast+
    show "request cbor_encode base64_decode bufferFromObject
        createGrpcErrorFromDriveResponse client_request path dataArg proveArg
      = Inr (base64_decode s)"
      unfolding r handle_reply_response [OF e o1 o2] using c by auto
  next
    fix result response
    assume e: "\<not> truthy (get_prop (JObj envelope) ''error'')"
      and o: "get_prop (JObj envelope) ''result'' = JObj result
              \<and> get_prop (JObj result) ''response'' = JObj response"
      and c: "get_prop (JObj response) ''code'' \<noteq> JUndefined
              \<and> get_prop (JObj response) ''code'' \<noteq> JNum 0"
    from o have o1: "get_prop (JObj envelope) ''result'' = JObj result"
      and o2: "get_prop (JObj result) ''response'' = JObj response"
      by blast+
    show "request cbor_encode base64_decode bufferFromObject
        createGrpcErrorFromDriveResponse client_request path dataArg proveArg
      = Inl (DriveResponseError
          (createGrpcErrorFromDriveResponse (get_prop (JObj response) ''code'')
             (get_prop (JObj response) ''info'')))"
      unfolding r handle_reply_response [OF e o1 o2] using c by auto
  qed
qed

theorem request_handles_reply_witness:
  "request (\<lambda>data. [160]) (\<lambda>s. if s = ''AQI='' then [1, 2] else [])
      (\<lambda>v. Inr [] :: (jsval \<times> jsval, unit) request_error + buffer) (\<lambda>code info. (code, info))
      (\<lambda>method options.
          Inr (JObj [(''result'', JObj [(''response'',
                 JObj [(''code'', JNum 0), (''value'', JStr ''AQI='')])])]))
      ''/identities'' (JObj []) JUndefined
     = Inr [1, 2]
   \<and> request (\<lambda>data. [160]) (\<lambda>s. if s = ''AQI='' then [1, 2] else [])
      (\<lambda>v. Inr [] :: (jsval \<times> jsval, unit) request_error + buffer) (\<lambda>code info. (code, info))
      (\<lambda>method options.
          Inr (JObj [(''result'', JObj [(''response'',
                 JObj [(''code'', JNum 1), (''info'', JStr ''query: bad clause'')])])]))
      ''/identities'' (JObj []) JUndefined
     = Inl (DriveResponseError (JNum 1, JStr ''query: bad clause''))
   \<and> request (\<lambda>data. [160]) (\<lambda>s. if s = ''AQI='' then [1, 2] else [])
      (\<lambda>v. Inr [] :: (jsval \<times> jsval, unit) request_error + buffer) (\<lambda>code info. (code, info))
      (\<lambda>method options.
          Inr (JObj [(''error'', JObj [(''code'', JNum (- 32700)), (''data'', JStr ''at 1'')])]))
      ''/identities'' (JObj []) JUndefined
     = Inl (RPCError (JNum (- 32700)) (JStr ''Internal error'') (JStr ''at 1''))"
proof -
  define enc where "enc = (\<lambda>data::jsval. [160] :: buffer)"
  define dec where "dec = (\<lambda>s::string. if s = ''AQI='' then [1, 2] else [] :: buffer)"
  define bfo where "bfo = (\<lambda>v::jsval. Inr [] :: (jsval \<times> jsval, unit) request_error + buffer)"
  define mk where "mk = (\<lambda>(code::jsval) (info::jsval). (code, info))"
  let ?ok = "[(''result'', JObj [(''response'',
                 JObj [(''code'', JNum 0), (''value'', JStr ''AQI='')])])]"
  let ?ko = "[(''result'', JObj [(''response'',
                 JObj [(''code'', JNum 1), (''info'', JStr ''query: bad clause'')])])]"
  let ?err = "[(''error'', JObj [(''code'', JNum (- 32700)), (''data'', JStr ''at 1'')])]"
  define c1 where "c1 = (\<lambda>(method::string) (options::jsval). Inr (JObj ?ok) :: unit + jsval)"
  define c2 where "c2 = (\<lambda>(method::string) (options::jsval). Inr (JObj ?ko) :: unit + jsval)"
  define c3 where "c3 = (\<lambda>(method::string) (options::jsval). Inr (JObj ?err) :: unit + jsval)"
  have r1: "c1 ''abci_query'' (request_options enc ''/identities'' (JObj []) JUndefined)
              = Inr (JObj ?ok)"
    and r2: "c2 ''abci_query'' (request_options enc ''/identities'' (JObj []) JUndefined)
              = Inr (JObj ?ko)"
    and r3: "c3 ''abci_query'' (request_options enc ''/identities'' (JObj []) JUndefined)
              = Inr (JObj ?err)"
    by (simp_all add: c1_def c2_def c3_def)
  from request_handles_reply [where client_request = c1 and cbor_encode = enc
      and base64_decode = dec and bufferFromObject = bfo
      and createGrpcErrorFromDriveResponse = mk, OF r1, THEN conjunct2]
  have a: "request enc dec bfo mk c1 ''/identities'' (JObj []) JUndefined = Inr [1, 2]"
    by (simp add: dec_def)
  from request_handles_reply [where client_request = c2 and cbor_encode = enc
      and base64_decode = dec and bufferFromObject = bfo
      and createGrpcErrorFromDriveResponse = mk, OF r2, THEN conjunct2]
  have b: "request enc dec bfo mk c2 ''/identities'' (JObj []) JUndefined
             = Inl (DriveResponseError (JNum 1, JStr ''query: bad clause''))"
    by (simp add: mk_def)
  from request_handles_reply [where client_request = c3 and cbor_encode = enc
      and base64_decode = dec and bufferFromObject = bfo
      and createGrpcErrorFromDriveResponse = mk, OF r3, THEN conjunct1]
  have c: "request enc dec bfo mk c3 ''/identities'' (JObj []) JUndefined
             = Inl (RPCError (JNum (- 32700)) (JStr ''Internal error'') (JStr ''at 1''))"
    by (simp add: js_or_def)
  from a b c show ?thesis
    unfolding enc_def dec_def bfo_def mk_def c1_def c2_def c3_def by blast
qed

text \<open>
  C7 as stated fails twice: an error whose code is \<open>0\<close> is thrown with the code
  \<open>-32602\<close>, although the code is not absent; and a response with the code \<open>0\<close> and
  no value makes \<open>request\<close> throw a TypeError instead of returning bytes.
\<close>

theorem request_code_zero_counterexample:
  "request (\<lambda>data. [160]) (\<lambda>s. if s = ''AQI='' then [1, 2] else [])
      (\<lambda>v. Inr [] :: (jsval \<times> jsval, unit) request_error + buffer) (\<lambda>code info. (code, info))
      (\<lambda>method options.
          Inr (JObj [(''error'', JObj [(''code'', JNum 0), (''message'', JStr ''boom'')])]))
      ''/identities'' (JObj []) JUndefined
     = Inl (RPCError (JNum (- 32602)) (JStr ''boom'') JUndefined)
   \<and> request (\<lambda>data. [160]) (\<lambda>s. if s = ''AQI='' then [1, 2] else [])
      (\<lambda>v. Inr [] :: (jsval \<times> jsval, unit) request_error + buffer) (\<lambda>code info. (code, info))
      (\<lambda>method options.
          Inr (JObj [(''result'', JObj [(''response'', JObj [(''code'', JNum 0)])])]))
      ''/identities'' (JObj []) JUndefined
     = Inl (RequestTypeError ''The first argument must be of type string or an instance of Buffer, ArrayBuffer, or Array or an Array-like Object.'')"
  by (simp add: request_def handle_reply_def request_member_def js_or_def)

section \<open>The batched proof request\<close>

text \<open>
  C9. For every list of N items, \<open>proveManyDocumentsFromDifferentContracts\<close> makes one
  call of the store's \<open>proveQueryMany\<close>, with a list of N path queries, and its outcome is
  the outcome of that call: an exception of the store fails the whole call, and no other
  result is ever put together. The path of the i-th query is \<open>TREE_PATH\<close> followed by
  the data contract id of the i-th item, the one byte \<open>1\<close>, the bytes of its document type
  and the one byte \<open>0\<close>; its query asks for the single item of type \<open>key\<close> whose key is
  the document id of the i-th item.
\<close>

theorem prove_many_is_one_batched_request:
  "\<exists>queries.
      proveManyDocumentsFromDifferentContracts proveQueryMany TREE_PATH documents
        = proveQueryMany queries
    \<and> length queries = length documents
    \<and> (\<forall>i < length documents.
          get_prop (queries ! i) ''path''
            = JArr (map JBuf (TREE_PATH @ [dataContractId (documents ! i), [1],
                                           map of_char (type (documents ! i)), [0]]))
        \<and> get_prop (queries ! i) ''query''
            = JObj [(''query'', JObj [(''items'',
                JArr [JObj [(''type'', JStr ''key''),
                            (''key'', JBuf (documentId (documents ! i)))]])])]
        \<and> object_keys (queries ! i) = [''path'', ''query''])
    \<and> (\<forall>e. proveQueryMany queries = Inl e \<longrightarrow>
          proveManyDocumentsFromDifferentContracts proveQueryMany TREE_PATH documents = Inl e)"
proof -
  let ?query = "\<lambda>d. JObj [(''path'', JArr (map JBuf (TREE_PATH @
                    [dataContractId d, [1], map of_char (type d), [0]]))),
                  (''query'', JObj [(''query'', JObj [(''items'',
                     JArr [JObj [(''type'', JStr ''key''), (''key'', JBuf (documentId d))]])])])]"
  have call: "proveManyDocumentsFromDifferentContracts proveQueryMany TREE_PATH documents
      = proveQueryMany (map ?query documents)"
    by (simp add: proveManyDocumentsFromDifferentContracts_def)
  have each: "get_prop (map ?query documents ! i) ''path''
            = JArr (map JBuf (TREE_PATH @ [dataContractId (documents ! i), [1],
                                           map of_char (type (documents ! i)), [0]]))
        \<and> get_prop (map ?query documents ! i) ''query''
            = JObj [(''query'', JObj [(''items'',
                JArr [JObj [(''type'', JStr ''key''),
                            (''key'', JBuf (documentId (documents ! i)))]])])]
        \<and> object_keys (map ?query documents ! i) = [''path'', ''query'']"
    if "i < length documents" for i
    using that by simp
  show ?thesis
  proof (intro exI [of _ "map ?query documents"] conjI allI impI)
    show "proveManyDocumentsFromDifferentContracts proveQueryMany TREE_PATH documents
        = proveQueryMany (map ?query documents)"
      by (rule call)
    show "length (map ?query documents) = length documents"
      by simp
    show "proveManyDocumentsFromDifferentContracts proveQueryMany TREE_PATH documents = Inl e"
      if "proveQueryMany (map ?query documents) = Inl e" for e
      using that call by simp
  qed (use each in blast)+
qed

theorem prove_many_is_one_batched_request_witness:
  "proveManyDocumentsFromDifferentContracts
      (\<lambda>queries. Inr queries :: error + jsval list) [[64]]
      [\<lparr>dataContractId = [7], documentId = [9], type = ''note''\<rparr>,
       \<lparr>dataContractId = [8], documentId = [10], type = ''a''\<rparr>]
   = Inr [JObj [(''path'', JArr [JBuf [64], JBuf [7], JBuf [1], JBuf [110, 111, 116, 101],
                                 JBuf [0]]),
                (''query'', JObj [(''query'', JObj [(''items'',
                   JArr [JObj [(''type'', JStr ''key''), (''key'', JBuf [9])]])])])],
          JObj [(''path'', JArr [JBuf [64], JBuf [8], JBuf [1], JBuf [97], JBuf [0]]),
                (''query'', JObj [(''query'', JObj [(''items'',
                   JArr [JObj [(''type'', JStr ''key''), (''key'', JBuf [10])]])])])]]
   \<and> proveManyDocumentsFromDifferentContracts
      (\<lambda>queries. Inl (BackendError ''path not found'' JNull) :: error + jsval list) [[64]]
      [\<lparr>dataContractId = [7], documentId = [9], type = ''note''\<rparr>,
       \<lparr>dataContractId = [8], documentId = [10], type = ''a''\<rparr>]
   = Inl (BackendError ''path not found'' JNull)"
proof -
  define echo where "echo = (\<lambda>queries::jsval list. Inr queries :: error + jsval list)"
  define fails where "fails = (\<lambda>queries::jsval list.
      Inl (BackendError ''path not found'' JNull) :: error + jsval list)"
  let ?documents = "[\<lparr>dataContractId = [7], documentId = [9], type = ''note''\<rparr>,
       \<lparr>dataContractId = [8], documentId = [10], type = ''a''\<rparr>]"
  obtain queries where q:
    "proveManyDocumentsFromDifferentContracts fails [[64]] ?documents = fails queries"
    using prove_many_is_one_batched_request [of fails "[[64]]" ?documents] by blast
  have b: "proveManyDocumentsFromDifferentContracts fails [[64]] ?documents
      = Inl (BackendError ''path not found'' JNull)"
    unfolding q by (simp add: fails_def)
  have a: "proveManyDocumentsFromDifferentContracts echo [[64]] ?documents
   = Inr [JObj [(''path'', JArr [JBuf [64], JBuf [7], JBuf [1], JBuf [110, 111, 116, 101],
                                 JBuf [0]]),
                (''query'', JObj [(''query'', JObj [(''items'',
                   JArr [JObj [(''type'', JStr ''key''), (''key'', JBuf [9])]])])])],
          JObj [(''path'', JArr [JBuf [64], JBuf [8], JBuf [1], JBuf [97], JBuf [0]]),
                (''query'', JObj [(''query'', JObj [(''items'',
                   JArr [JObj [(''type'', JStr ''key''), (''key'', JBuf [10])]])])])]]"
    by (simp add: proveManyDocumentsFromDifferentContracts_def echo_def)
  from a b show ?thesis
    unfolding echo_def fails_def by blast
qed

end
